theory Spec2Isabelle
  imports Main
begin

section \<open>JavaScript values\<close>

text \<open>
  The router is TypeScript running on Node. Everything that crosses a socket or comes out
  of the directory store is a value produced by \<^verbatim>\<open>JSON.parse\<close> or read from a document, so
  the model works on JavaScript values. Numbers are restricted to integers: payloads are
  opaque to the router and it never computes with them.
\<close>

datatype jsval =
    JUndefined
  | JNull
  | JBool bool
  | JNum int
  | JStr string
  | JArr "jsval list"
  | JObj "(string \<times> jsval) list"

datatype error = TypeError

text \<open>The outcome of \<^verbatim>\<open>JSON.parse(msg.data)\<close>: the builtin either throws or returns a value.\<close>

datatype json_parse = SyntaxError | Parsed jsval

text \<open>\<^verbatim>\<open>v == null\<close> holds for \<^verbatim>\<open>null\<close> and \<^verbatim>\<open>undefined\<close> only.\<close>

fun nullish :: "jsval \<Rightarrow> bool" where
  "nullish JUndefined = True"
| "nullish JNull = True"
| "nullish v = False"

text \<open>The operator \<^verbatim>\<open>v ?? d\<close>.\<close>

definition coalesce :: "jsval \<Rightarrow> jsval \<Rightarrow> jsval" where
  "coalesce v d = (if nullish v then d else v)"

text \<open>Truthiness, as tested by \<^verbatim>\<open>if (v)\<close> and \<^verbatim>\<open>!v\<close>.\<close>

fun truthy :: "jsval \<Rightarrow> bool" where
  "truthy JUndefined = False"
| "truthy JNull = False"
| "truthy (JBool b) = b"
| "truthy (JNum n) = (n \<noteq> 0)"
| "truthy (JStr s) = (s \<noteq> [])"
| "truthy (JArr xs) = True"
| "truthy (JObj fs) = True"

text \<open>
  Member access \<^verbatim>\<open>v.k\<close> for the property names the router reads (\<^verbatim>\<open>action\<close>, \<^verbatim>\<open>data\<close>,
  \<^verbatim>\<open>id\<close>, \<^verbatim>\<open>token\<close>, \<^verbatim>\<open>command\<close>, \<^verbatim>\<open>candidate\<close>, \<^verbatim>\<open>offer\<close>, \<^verbatim>\<open>answer\<close>, \<^verbatim>\<open>ice\<close>,
  \<^verbatim>\<open>management_socket\<close>): none of them is inherited from a prototype, so on an object the
  result is the own property or \<^verbatim>\<open>undefined\<close>, on any other non-nullish value it is
  \<^verbatim>\<open>undefined\<close>, and on \<^verbatim>\<open>null\<close> and \<^verbatim>\<open>undefined\<close> the access throws a TypeError.
\<close>

fun get_prop :: "jsval \<Rightarrow> string \<Rightarrow> error + jsval" where
  "get_prop JUndefined k = Inl TypeError"
| "get_prop JNull k = Inl TypeError"
| "get_prop (JObj fs) k = Inr (case map_of fs k of None \<Rightarrow> JUndefined | Some v \<Rightarrow> v)"
| "get_prop v k = Inr JUndefined"

text \<open>
  Loose equality \<^verbatim>\<open>a == b\<close>. The equations cover \<^verbatim>\<open>null\<close>/\<^verbatim>\<open>undefined\<close> against
  anything and two primitives of the same type. Comparisons that JavaScript decides by
  coercion (a number against a string, an object against a primitive) or by object
  identity are left unspecified: no theorem below depends on them.
\<close>

fun loose_eq :: "jsval \<Rightarrow> jsval \<Rightarrow> bool" where
  "loose_eq JUndefined v = nullish v"
| "loose_eq JNull v = nullish v"
| "loose_eq v JUndefined = False"
| "loose_eq v JNull = False"
| "loose_eq (JStr a) (JStr b) = (a = b)"
| "loose_eq (JBool a) (JBool b) = (a = b)"
| "loose_eq (JNum a) (JNum b) = (a = b)"

text \<open>
  Strict equality with a string literal, \<^verbatim>\<open>v === "lit"\<close>: true exactly for the string
  with the same characters.
\<close>

definition strict_eq_str :: "jsval \<Rightarrow> string \<Rightarrow> bool" where
  "strict_eq_str v lit = (v = JStr lit)"

section \<open>Message codec\<close>

text \<open>
  \<^verbatim>\<open>SockRequest\<close> (and, with the same constructor body, the \<^verbatim>\<open>Request\<close> class of the
  variants that use the \<^verbatim>\<open>action\<close> vocabulary). The field \<^verbatim>\<open>id\<close> is called \<open>id_field\<close>
  here.
\<close>

record request =
  parseError :: bool
  action :: jsval
  data :: jsval
  id_field :: jsval
  token :: jsval

text \<open>
  The constructor. \<^verbatim>\<open>JSON.parse\<close> runs inside \<^verbatim>\<open>try\<close>; the \<^verbatim>\<open>catch\<close> sets
  \<^verbatim>\<open>parseError\<close> and leaves \<^verbatim>\<open>parsed\<close> undefined. The four field reads come after the
  \<^verbatim>\<open>try\<close> statement, outside it.
\<close>

definition SockRequest :: "json_parse \<Rightarrow> error + request" where
  "SockRequest msg =
     (let (perr, parsed) = (case msg of SyntaxError \<Rightarrow> (True, JUndefined)
                                      | Parsed v \<Rightarrow> (False, v)) in
      case get_prop parsed ''action'' of Inl e \<Rightarrow> Inl e | Inr a \<Rightarrow>
      case get_prop parsed ''data'' of Inl e \<Rightarrow> Inl e | Inr d \<Rightarrow>
      case get_prop parsed ''id'' of Inl e \<Rightarrow> Inl e | Inr i \<Rightarrow>
      case get_prop parsed ''token'' of Inl e \<Rightarrow> Inl e | Inr t \<Rightarrow>
        Inr \<lparr>parseError = perr,
             action = coalesce a (JStr ''''),
             data = coalesce d JNull,
             id_field = coalesce i (JStr ''''),
             token = coalesce t (JStr '''')\<rparr>)"


section \<open>Wire messages of the role-split variant\<close>

text \<open>
  A wire message is the object literal handed to \<^verbatim>\<open>JSON.stringify\<close>: its keys in order,
  with their values. The module-level variables are read when a message is generated.
\<close>

type_synonym wire = "(string \<times> jsval) list"

record globals =
  NODE_ID :: jsval
  NODE_INSTANCE_NAME :: jsval
  NODE_AUTH :: jsval

text \<open>\<^verbatim>\<open>SockResponse.generateGenericMessage(action, data, id, token, useAuth)\<close>.\<close>

definition SockResponse_generateGenericMessage ::
    "jsval \<Rightarrow> jsval \<Rightarrow> jsval \<Rightarrow> jsval \<Rightarrow> bool \<Rightarrow> wire" where
  "SockResponse_generateGenericMessage act d i t useAuth =
     (if useAuth then [(''action'', act), (''data'', d), (''id'', i), (''token'', t)]
      else [(''action'', act), (''data'', d)])"

definition RESP_OFFER :: "globals \<Rightarrow> jsval \<Rightarrow> wire" where
  "RESP_OFFER g offer =
     SockResponse_generateGenericMessage (JStr ''offer'') offer
       (NODE_INSTANCE_NAME g) (NODE_AUTH g) True"

definition RESP_ANSWER :: "globals \<Rightarrow> jsval \<Rightarrow> wire" where
  "RESP_ANSWER g ans =
     SockResponse_generateGenericMessage (JStr ''answer'') ans
       (NODE_INSTANCE_NAME g) (NODE_AUTH g) False"

definition RESP_RENEG :: "globals \<Rightarrow> wire" where
  "RESP_RENEG g =
     SockResponse_generateGenericMessage (JStr ''renegotiate'') JNull
       (NODE_INSTANCE_NAME g) (NODE_AUTH g) False"

definition RESP_ICE :: "globals \<Rightarrow> jsval \<Rightarrow> bool \<Rightarrow> wire" where
  "RESP_ICE g ice auth =
     SockResponse_generateGenericMessage (JStr ''addICE'') ice
       (NODE_INSTANCE_NAME g) (NODE_AUTH g) auth"

section \<open>Sessions of the role-split variant\<close>

text \<open>
  A media stream with its tracks. The peer connection, the socket and the directory store
  are external: a session records, in order, every call it makes on them. \<open>DbSet c d\<close> is
  \<^verbatim>\<open>dbRef.doc().set(d)\<close> on the session's collection \<open>c\<close>, used by the relay variant.
\<close>

datatype stream = MediaStream (stream_name: string) (getTracks: "string list")

datatype effect =
    SetRemoteDescription jsval
  | CreateAnswer
  | SetLocalDescription jsval
  | CreateOffer
  | AddIceCandidate jsval
  | AddTrack string stream
  | PcClose
  | Send wire
  | SocketClose
  | DbSet string wire

text \<open>
  The \<^verbatim>\<open>async\<close> methods run up to their first \<^verbatim>\<open>await\<close> inside the handler that calls
  them; each later part runs when the engine settles the promise awaited. A task is one
  such call in flight, with the \<^verbatim>\<open>await\<close> it is suspended at.
\<close>

datatype stage =
    AwaitSetRemote
  | AwaitCreateAnswer
  | AwaitSetLocal jsval
  | AwaitCreateOffer
  | AwaitSetLocalOffer jsval
  | AwaitSetRemoteAnswer
  | Finished
  | Failed

text \<open>
  \<^verbatim>\<open>ClientConnection\<close>: \<open>id'\<close> is its private \<^verbatim>\<open>_id\<close>, \<^verbatim>\<open>null\<close> until the gate assigns it;
  \<open>effects\<close> are the calls made on the peer connection and the socket, \<open>tasks\<close> the
  \<^verbatim>\<open>async\<close> calls in flight.
\<close>

record session =
  id' :: jsval
  clientStreams :: "stream option list"
  effects :: "effect list"
  tasks :: "stage list"

definition new_session :: session where
  "new_session = \<lparr>id' = JNull, clientStreams = [], effects = [], tasks = []\<rparr>"

definition do_effect :: "effect \<Rightarrow> session \<Rightarrow> session" where
  "do_effect e s = s\<lparr>effects := effects s @ [e]\<rparr>"

text \<open>\<^verbatim>\<open>ClientConnection.authenticateRequest\<close>: the result and the session after the call.\<close>

definition authenticateRequest :: "session \<Rightarrow> request \<Rightarrow> bool \<times> session" where
  "authenticateRequest s req =
     (if nullish (id' s) then
        (loose_eq (token req) (JStr ''testauth''), s\<lparr>id' := id_field req\<rparr>)
      else if \<not> loose_eq (id' s) (id_field req) then (False, s)
      else (loose_eq (token req) (JStr ''testauth''), s))"

text \<open>\<^verbatim>\<open>ClientConnection.close\<close>.\<close>

definition close :: "session \<Rightarrow> session" where
  "close s = do_effect SocketClose (do_effect PcClose s)"

text \<open>
  \<^verbatim>\<open>InboundClient.getRtcAnswer\<close>, up to its first \<^verbatim>\<open>await\<close>: the call of
  \<^verbatim>\<open>setRemoteDescription\<close> is made at once.
\<close>

definition getRtcAnswer :: "session \<Rightarrow> jsval \<Rightarrow> session" where
  "getRtcAnswer s offer =
     (do_effect (SetRemoteDescription offer) s)\<lparr>tasks := tasks s @ [AwaitSetRemote]\<rparr>"

text \<open>\<^verbatim>\<open>OutboundClient.processAnswer\<close> and \<^verbatim>\<open>OutboundClient.sendOffer\<close>, up to the first \<^verbatim>\<open>await\<close>.\<close>

definition processAnswer :: "session \<Rightarrow> jsval \<Rightarrow> session" where
  "processAnswer s answer =
     (do_effect (SetRemoteDescription answer) s)\<lparr>tasks := tasks s @ [AwaitSetRemoteAnswer]\<rparr>"

definition sendOffer :: "session \<Rightarrow> session" where
  "sendOffer s = (do_effect CreateOffer s)\<lparr>tasks := tasks s @ [AwaitCreateOffer]\<rparr>"

text \<open>The \<^verbatim>\<open>addICE\<close> case, the same in both roles.\<close>

definition addICE :: "session \<Rightarrow> jsval \<Rightarrow> error option \<times> session" where
  "addICE s d =
     (case get_prop d ''candidate'' of
        Inl e \<Rightarrow> (Some e, s)
      | Inr c \<Rightarrow> if truthy c then (None, do_effect (AddIceCandidate d) s) else (None, s))"

text \<open>
  \<^verbatim>\<open>InboundClient.onClientMessage\<close>. The result is the exception that left the handler, if
  any, and the session as the handler left it.
\<close>

definition InboundClient_onClientMessage :: "session \<Rightarrow> json_parse \<Rightarrow> error option \<times> session" where
  "InboundClient_onClientMessage s msg =
     (case SockRequest msg of
        Inl e \<Rightarrow> (Some e, s)
      | Inr req \<Rightarrow>
          if parseError req then (None, s)
          else
            (let (ok, s1) = authenticateRequest s req in
             if \<not> ok then (None, close s1)
             else if strict_eq_str (action req) ''offer'' then (None, getRtcAnswer s1 (data req))
             else if strict_eq_str (action req) ''addICE'' then addICE s1 (data req)
             else (None, s1)))"

text \<open>\<^verbatim>\<open>OutboundClient.onClientMessage\<close>.\<close>

definition OutboundClient_onClientMessage :: "session \<Rightarrow> json_parse \<Rightarrow> error option \<times> session" where
  "OutboundClient_onClientMessage s msg =
     (case SockRequest msg of
        Inl e \<Rightarrow> (Some e, s)
      | Inr req \<Rightarrow>
          if parseError req then (None, s)
          else if strict_eq_str (action req) ''answer'' then (None, processAnswer s (data req))
          else if strict_eq_str (action req) ''renegotiate'' then (None, sendOffer s)
          else if strict_eq_str (action req) ''addICE'' then addICE s (data req)
          else (None, s))"

text \<open>
  \<^verbatim>\<open>ClientConnection.addMediaStream\<close>: one \<^verbatim>\<open>addTrack\<close> per track of the stream;
  \<^verbatim>\<open>stream.getTracks()\<close> throws when the stream is undefined.
\<close>

definition addMediaStream :: "session \<Rightarrow> stream option \<Rightarrow> error option \<times> session" where
  "addMediaStream s st =
     (case st of
        None \<Rightarrow> (Some TypeError, s)
      | Some m \<Rightarrow> (None, s\<lparr>effects := effects s @ map (\<lambda>t. AddTrack t m) (getTracks m)\<rparr>))"

datatype role = Inbound | Outbound

text \<open>\<^verbatim>\<open>renegotiateWebRTC\<close> and \<^verbatim>\<open>sendIce\<close> of the two subclasses.\<close>

definition renegotiateWebRTC :: "globals \<Rightarrow> role \<Rightarrow> session \<Rightarrow> session" where
  "renegotiateWebRTC g r s =
     (case r of Inbound \<Rightarrow> do_effect (Send (RESP_RENEG g)) s | Outbound \<Rightarrow> sendOffer s)"

definition sendIce :: "globals \<Rightarrow> role \<Rightarrow> session \<Rightarrow> jsval \<Rightarrow> session" where
  "sendIce g r s candidate =
     do_effect (Send (RESP_ICE g candidate (case r of Inbound \<Rightarrow> False | Outbound \<Rightarrow> True))) s"

text \<open>
  The continuation of task \<open>k\<close> when the engine fulfils the promise it awaits with value
  \<open>v\<close>: the next call of \<^verbatim>\<open>getRtcAnswer\<close> or \<^verbatim>\<open>sendOffer\<close>, and at the end the \<^verbatim>\<open>send\<close>.
\<close>

definition resolved :: "globals \<Rightarrow> session \<Rightarrow> nat \<Rightarrow> jsval \<Rightarrow> session" where
  "resolved g s k v =
     (if k < length (tasks s) then
        (case tasks s ! k of
           AwaitSetRemote \<Rightarrow> (do_effect CreateAnswer s)\<lparr>tasks := (tasks s)[k := AwaitCreateAnswer]\<rparr>
         | AwaitCreateAnswer \<Rightarrow>
             (do_effect (SetLocalDescription v) s)\<lparr>tasks := (tasks s)[k := AwaitSetLocal v]\<rparr>
         | AwaitSetLocal a \<Rightarrow>
             (do_effect (Send (RESP_ANSWER g a)) s)\<lparr>tasks := (tasks s)[k := Finished]\<rparr>
         | AwaitCreateOffer \<Rightarrow>
             (do_effect (SetLocalDescription v) s)\<lparr>tasks := (tasks s)[k := AwaitSetLocalOffer v]\<rparr>
         | AwaitSetLocalOffer off \<Rightarrow>
             (do_effect (Send (RESP_OFFER g off)) s)\<lparr>tasks := (tasks s)[k := Finished]\<rparr>
         | AwaitSetRemoteAnswer \<Rightarrow> s\<lparr>tasks := (tasks s)[k := Finished]\<rparr>
         | Finished \<Rightarrow> s
         | Failed \<Rightarrow> s)
      else s)"

text \<open>A rejected promise ends the task: the rest of the \<^verbatim>\<open>async\<close> method does not run.\<close>

definition rejected :: "session \<Rightarrow> nat \<Rightarrow> session" where
  "rejected s k =
     (if k < length (tasks s) \<and> tasks s ! k \<noteq> Finished then s\<lparr>tasks := (tasks s)[k := Failed]\<rparr>
      else s)"

text \<open>
  Everything that can happen to a session: a socket message, a promise of the engine
  settling, the engine's \<^verbatim>\<open>onicecandidate\<close> and \<^verbatim>\<open>ontrack\<close> callbacks, and the calls the
  management interface makes on it.
\<close>

datatype event =
    Message json_parse
  | Resolved nat jsval
  | Rejected nat
  | IceCandidate jsval
  | Track "stream list"
  | Renegotiate
  | AddMediaStream "stream option"
  | Close

definition step :: "globals \<Rightarrow> role \<Rightarrow> session \<Rightarrow> event \<Rightarrow> error option \<times> session" where
  "step g r s ev =
     (case ev of
        Message msg \<Rightarrow>
          (case r of Inbound \<Rightarrow> InboundClient_onClientMessage s msg
                   | Outbound \<Rightarrow> OutboundClient_onClientMessage s msg)
      | Resolved k v \<Rightarrow> (None, resolved g s k v)
      | Rejected k \<Rightarrow> (None, rejected s k)
      | IceCandidate c \<Rightarrow> (None, if truthy c then sendIce g r s c else s)
      | Track sts \<Rightarrow>
          (None, s\<lparr>clientStreams := clientStreams s @ [case sts of [] \<Rightarrow> None | m # _ \<Rightarrow> Some m]\<rparr>)
      | Renegotiate \<Rightarrow> (None, renegotiateWebRTC g r s)
      | AddMediaStream st \<Rightarrow> addMediaStream s st
      | Close \<Rightarrow> (None, close s))"

text \<open>A run of events; an exception ends the handler that threw it, not the session.\<close>

fun run :: "globals \<Rightarrow> role \<Rightarrow> session \<Rightarrow> event list \<Rightarrow> session" where
  "run g r s [] = s"
| "run g r s (ev # evs) = run g r (snd (step g r s ev)) evs"



text \<open>The fields of a wire message, in order.\<close>

definition wire_fields :: "wire \<Rightarrow> string list" where
  "wire_fields m = map fst m"

text \<open>The fields the specification gives the messages of each role.\<close>

definition role_fields :: "role \<Rightarrow> string list" where
  "role_fields r =
     (case r of Inbound \<Rightarrow> [''action'', ''data'']
              | Outbound \<Rightarrow> [''action'', ''data'', ''id'', ''token''])"

section \<open>Node bootstrap\<close>

text \<open>
  \<^verbatim>\<open>init\<close> of the role-split variant, after \<^verbatim>\<open>docRef.set(data)\<close> has written the
  registration document. The snapshot callback is an \<^verbatim>\<open>async\<close> function with two \<^verbatim>\<open>await\<close>s,
  so one run of it is three steps of the event loop: from its start to
  \<^verbatim>\<open>await snapshot.data()\<close>, from there to \<^verbatim>\<open>await docRef.delete()\<close>, and the rest. The
  state is the closure variable \<^verbatim>\<open>db_read\<close>, whether the subscription is still on, every
  run of the callback started so far with the place where it stands, and the calls made
  so far.
\<close>

datatype boot_action =
    OpenManagementSocket jsval
  | StartServer
  | DeleteDocument
  | Unsubscribe

datatype boot_error =
    ReadError error
  | InvalidUrl jsval

datatype callback =
    AwaitData jsval
  | AwaitDelete
  | Returned
  | Threw boot_error

record boot =
  db_read :: bool
  subscribed :: bool
  callbacks :: "callback list"
  boot_actions :: "boot_action list"

definition boot_start :: boot where
  "boot_start = \<lparr>db_read = False, subscribed = True, callbacks = [], boot_actions = []\<rparr>"

text \<open>
  The start of the callback, on a snapshot whose \<^verbatim>\<open>data()\<close> is \<open>d\<close>: the test of
  \<^verbatim>\<open>db_read\<close>, then \<^verbatim>\<open>snapshot.data()\<close> and the suspension at the first \<^verbatim>\<open>await\<close>.
\<close>

definition onSnapshot :: "boot \<Rightarrow> jsval \<Rightarrow> boot" where
  "onSnapshot b d =
     (if db_read b then b\<lparr>callbacks := callbacks b @ [Returned]\<rparr>
      else b\<lparr>callbacks := callbacks b @ [AwaitData d]\<rparr>)"

text \<open>
  The continuation of run \<open>k\<close> of the callback, when the promise it awaits is fulfilled.
  After \<^verbatim>\<open>await snapshot.data()\<close>: the read of \<^verbatim>\<open>data.management_socket\<close>, which throws when
  the data is \<^verbatim>\<open>undefined\<close> or \<^verbatim>\<open>null\<close>; for a truthy address the assignment
  \<^verbatim>\<open>db_read = true\<close>, then \<^verbatim>\<open>new Socket(data.management_socket)\<close>, which throws on an
  address it does not accept (\<open>valid_url\<close> says which ones it accepts), then the server
  and \<^verbatim>\<open>docRef.delete()\<close>, where the run is suspended again. \<^verbatim>\<open>db_read\<close> is not tested a
  second time. After \<^verbatim>\<open>await docRef.delete()\<close>: \<^verbatim>\<open>unsub()\<close>.
\<close>

definition resume :: "(jsval \<Rightarrow> bool) \<Rightarrow> boot \<Rightarrow> nat \<Rightarrow> boot" where
  "resume valid_url b k =
     (if k < length (callbacks b) then
        (case callbacks b ! k of
           AwaitData d \<Rightarrow>
             (case get_prop d ''management_socket'' of
                Inl e \<Rightarrow> b\<lparr>callbacks := (callbacks b)[k := Threw (ReadError e)]\<rparr>
              | Inr m \<Rightarrow>
                  if truthy m then
                    (if valid_url m then
                       b\<lparr>db_read := True,
                         callbacks := (callbacks b)[k := AwaitDelete],
                         boot_actions := boot_actions b @
                           [OpenManagementSocket m, StartServer, DeleteDocument]\<rparr>
                     else
                       b\<lparr>db_read := True,
                         callbacks := (callbacks b)[k := Threw (InvalidUrl m)]\<rparr>)
                  else b\<lparr>callbacks := (callbacks b)[k := Returned]\<rparr>)
         | AwaitDelete \<Rightarrow>
             b\<lparr>subscribed := False,
               callbacks := (callbacks b)[k := Returned],
               boot_actions := boot_actions b @ [Unsubscribe]\<rparr>
         | Returned \<Rightarrow> b
         | Threw e \<Rightarrow> b)
      else b)"

text \<open>
  What the event loop does: the store delivers a notification, which starts a run of the
  callback as long as the subscription is on, or a promise that run \<open>k\<close> awaits is
  fulfilled.
\<close>

datatype boot_event = Snapshot jsval | Resume nat

fun boot_run :: "(jsval \<Rightarrow> bool) \<Rightarrow> boot \<Rightarrow> boot_event list \<Rightarrow> boot" where
  "boot_run valid_url b [] = b"
| "boot_run valid_url b (Snapshot d # evs) =
     boot_run valid_url (if subscribed b then onSnapshot b d else b) evs"
| "boot_run valid_url b (Resume k # evs) = boot_run valid_url (resume valid_url b k) evs"

text \<open>
  The specification's side of the bootstrap. A notification carries an assignment when
  its document has a truthy \<^verbatim>\<open>management_socket\<close>; \<open>first_assignment\<close> is the address in
  the first such notification. \<open>spec_handoff\<close> is the sequence of calls the
  specification asks for up to the deletion: nothing as long as no notification carries
  an assignment, and the handoff once, to the first address assigned.
\<close>

definition assigned_socket :: "jsval \<Rightarrow> jsval option" where
  "assigned_socket d =
     (case get_prop d ''management_socket'' of
        Inl e \<Rightarrow> None
      | Inr m \<Rightarrow> if truthy m then Some m else None)"

fun first_assignment :: "jsval list \<Rightarrow> jsval option" where
  "first_assignment [] = None"
| "first_assignment (d # ds) =
     (case assigned_socket d of Some m \<Rightarrow> Some m | None \<Rightarrow> first_assignment ds)"

definition spec_handoff :: "jsval list \<Rightarrow> boot_action list" where
  "spec_handoff ds =
     (case first_assignment ds of
        None \<Rightarrow> []
      | Some m \<Rightarrow> [OpenManagementSocket m, StartServer, DeleteDocument])"

text \<open>
  The delivery in which every run of the callback gets past \<^verbatim>\<open>await snapshot.data()\<close>
  before the next notification arrives; \<open>n\<close> is the number of runs started before.
\<close>

fun one_at_a_time :: "nat \<Rightarrow> jsval list \<Rightarrow> boot_event list" where
  "one_at_a_time n [] = []"
| "one_at_a_time n (d # ds) = Snapshot d # Resume n # one_at_a_time (Suc n) ds"

section \<open>The relay variant: sessions signalled through the directory store\<close>

text \<open>
  \<^verbatim>\<open>ClientConnection\<close> of the relay variant. Its \<^verbatim>\<open>id\<close> and \<^verbatim>\<open>isInitiator\<close> are set by the
  constructor.
\<close>

record relay_client =
  rc_id :: jsval
  rc_isInitiator :: bool
  rc_clientStreams :: "stream option list"
  rc_effects :: "effect list"
  rc_tasks :: "stage list"

datatype log_entry =
    RoutingSourceMissing jsval
  | RoutingDestinationMissing jsval
  | NotInitialized string jsval
  | GotNull string jsval
  | NoSuchUser jsval

record relay_world =
  rw_NODE_ID :: jsval
  rw_clients :: "relay_client list"
  rw_log :: "log_entry list"

definition rc_effect :: "effect \<Rightarrow> relay_client \<Rightarrow> relay_client" where
  "rc_effect e c = c\<lparr>rc_effects := rc_effects c @ [e]\<rparr>"

text \<open>
  The first element that satisfies a test, by position: a \<^verbatim>\<open>for ... of\<close> loop that returns
  at the first hit.
\<close>

fun find_first :: "('a \<Rightarrow> bool) \<Rightarrow> 'a list \<Rightarrow> nat option" where
  "find_first P [] = None"
| "find_first P (x # xs) = (if P x then Some 0 else map_option Suc (find_first P xs))"

text \<open>\<^verbatim>\<open>ClientManager.getClientById\<close>: the position of the client found, or nothing for \<^verbatim>\<open>null\<close>.\<close>

definition rw_getClientById :: "relay_client list \<Rightarrow> jsval \<Rightarrow> nat option" where
  "rw_getClientById cs i = find_first (\<lambda>c. loose_eq (rc_id c) i) cs"

text \<open>\<^verbatim>\<open>ClientConnection.addMediaStream\<close>, \<^verbatim>\<open>sendOffer\<close> up to its first \<^verbatim>\<open>await\<close>, and
  \<^verbatim>\<open>renegotiateWebRTC\<close>.\<close>

definition rc_addMediaStream :: "relay_client \<Rightarrow> stream option \<Rightarrow> error option \<times> relay_client" where
  "rc_addMediaStream c st =
     (case st of
        None \<Rightarrow> (Some TypeError, c)
      | Some m \<Rightarrow> (None, c\<lparr>rc_effects := rc_effects c @ map (\<lambda>t. AddTrack t m) (getTracks m)\<rparr>))"

definition rc_sendOffer :: "relay_client \<Rightarrow> relay_client" where
  "rc_sendOffer c = (rc_effect CreateOffer c)\<lparr>rc_tasks := rc_tasks c @ [AwaitCreateOffer]\<rparr>"

definition rc_renegotiateWebRTC :: "jsval \<Rightarrow> relay_client \<Rightarrow> relay_client" where
  "rc_renegotiateWebRTC node_id c =
     (if rc_isInitiator c then rc_sendOffer c
      else rc_effect (DbSet ''commands'' [(''id'', node_id), (''command'', JStr ''renegotiate'')]) c)"

text \<open>\<^verbatim>\<open>clientStreams[0]\<close>.\<close>

definition first_stream :: "stream option list \<Rightarrow> stream option" where
  "first_stream sts = (case sts of [] \<Rightarrow> None | m # _ \<Rightarrow> m)"

text \<open>
  The loop of \<^verbatim>\<open>ConnectionManager.connectClients\<close>, with its counter:
  \<^verbatim>\<open>for (let i = 1; i < destClientIds.length; i++)\<close>.
\<close>

function connectClients_loop ::
    "stream option \<Rightarrow> jsval list \<Rightarrow> nat \<Rightarrow> relay_world \<Rightarrow> error option \<times> relay_world" where
  "connectClients_loop srcStream destClientIds i w =
     (if i < length destClientIds then
        (case rw_getClientById (rw_clients w) (destClientIds ! i) of
           None \<Rightarrow>
             connectClients_loop srcStream destClientIds (Suc i)
               (w\<lparr>rw_log := rw_log w @ [RoutingDestinationMissing (destClientIds ! i)]\<rparr>)
         | Some j \<Rightarrow>
             (case rc_addMediaStream (rw_clients w ! j) srcStream of
                (Some e, c) \<Rightarrow> (Some e, w\<lparr>rw_clients := (rw_clients w)[j := c]\<rparr>)
              | (None, c) \<Rightarrow>
                  connectClients_loop srcStream destClientIds (Suc i)
                    (w\<lparr>rw_clients := (rw_clients w)[j := rc_renegotiateWebRTC (rw_NODE_ID w) c]\<rparr>)))
      else (None, w))"
  by pat_completeness auto
termination
  by (relation "measure (\<lambda>(srcStream, destClientIds, i, w). length destClientIds - i)") auto

declare connectClients_loop.simps [simp del]

text \<open>\<^verbatim>\<open>ConnectionManager.connectClients(srcClientId, destClientIds)\<close>.\<close>

definition connectClients :: "relay_world \<Rightarrow> jsval \<Rightarrow> jsval list \<Rightarrow> error option \<times> relay_world" where
  "connectClients w srcClientId destClientIds =
     (case rw_getClientById (rw_clients w) srcClientId of
        None \<Rightarrow> (None, w\<lparr>rw_log := rw_log w @ [RoutingSourceMissing srcClientId]\<rparr>)
      | Some k \<Rightarrow>
          connectClients_loop (first_stream (rc_clientStreams (rw_clients w ! k))) destClientIds 1 w)"

text \<open>
  A change of a query snapshot: its type and \<^verbatim>\<open>change.doc.data()\<close>.
\<close>

datatype change_type = Added | Modified | Removed

text \<open>
  The body of the \<^verbatim>\<open>forEach\<close> callback of \<^verbatim>\<open>SignalManager.handleOffer\<close>, for one change.
  \<^verbatim>\<open>client.handleOffer\<close> calls \<^verbatim>\<open>getRtcAnswer\<close>, which calls \<^verbatim>\<open>setRemoteDescription\<close> at once.
\<close>

definition handleOffer_change :: "relay_world \<Rightarrow> change_type \<times> jsval \<Rightarrow> error option \<times> relay_world" where
  "handleOffer_change w ch =
     (case ch of (ty, doc) \<Rightarrow>
        if ty = Added then
          (case get_prop doc ''id'' of
             Inl e \<Rightarrow> (Some e, w)
           | Inr i \<Rightarrow>
               (case rw_getClientById (rw_clients w) i of
                  None \<Rightarrow> (None, w\<lparr>rw_log := rw_log w @ [NotInitialized ''offer'' i]\<rparr>)
                | Some j \<Rightarrow>
                    (case get_prop doc ''offer'' of
                       Inl e \<Rightarrow> (Some e, w)
                     | Inr off \<Rightarrow>
                         if truthy off then
                           (None, w\<lparr>rw_clients := (rw_clients w)
                              [j := (rc_effect (SetRemoteDescription off) (rw_clients w ! j))
                                      \<lparr>rc_tasks := rc_tasks (rw_clients w ! j) @ [AwaitSetRemote]\<rparr>]\<rparr>)
                         else (None, w\<lparr>rw_log := rw_log w @ [GotNull ''offer'' i]\<rparr>))))
        else (None, w))"

text \<open>
  The callback of \<^verbatim>\<open>SignalManager.handleAnswer\<close>: the test reads \<^verbatim>\<open>data().answer\<close>, the call
  passes \<^verbatim>\<open>data().offer\<close>, and the log line after the \<^verbatim>\<open>if\<close> is reached either way.
\<close>

definition handleAnswer_change :: "relay_world \<Rightarrow> change_type \<times> jsval \<Rightarrow> error option \<times> relay_world" where
  "handleAnswer_change w ch =
     (case ch of (ty, doc) \<Rightarrow>
        if ty = Added then
          (case get_prop doc ''id'' of
             Inl e \<Rightarrow> (Some e, w)
           | Inr i \<Rightarrow>
               (case rw_getClientById (rw_clients w) i of
                  None \<Rightarrow> (None, w\<lparr>rw_log := rw_log w @ [NotInitialized ''answer'' i]\<rparr>)
                | Some j \<Rightarrow>
                    (case get_prop doc ''answer'' of
                       Inl e \<Rightarrow> (Some e, w)
                     | Inr ans \<Rightarrow>
                         if truthy ans then
                           (case get_prop doc ''offer'' of
                              Inl e \<Rightarrow> (Some e, w)
                            | Inr off \<Rightarrow>
                                (None, w\<lparr>rw_clients := (rw_clients w)
                                   [j := rc_effect (SetRemoteDescription off) (rw_clients w ! j)],
                                   rw_log := rw_log w @ [GotNull ''answer'' i]\<rparr>))
                         else (None, w\<lparr>rw_log := rw_log w @ [GotNull ''answer'' i]\<rparr>))))
        else (None, w))"

text \<open>The callback of \<^verbatim>\<open>SignalManager.handleICE\<close>: tests \<^verbatim>\<open>data().ice\<close>, passes \<^verbatim>\<open>data().offer\<close>.\<close>

definition handleICE_change :: "relay_world \<Rightarrow> change_type \<times> jsval \<Rightarrow> error option \<times> relay_world" where
  "handleICE_change w ch =
     (case ch of (ty, doc) \<Rightarrow>
        if ty = Added then
          (case get_prop doc ''id'' of
             Inl e \<Rightarrow> (Some e, w)
           | Inr i \<Rightarrow>
               (case rw_getClientById (rw_clients w) i of
                  None \<Rightarrow> (None, w\<lparr>rw_log := rw_log w @ [NotInitialized ''ICE'' i]\<rparr>)
                | Some j \<Rightarrow>
                    (case get_prop doc ''ice'' of
                       Inl e \<Rightarrow> (Some e, w)
                     | Inr ice \<Rightarrow>
                         if truthy ice then
                           (case get_prop doc ''offer'' of
                              Inl e \<Rightarrow> (Some e, w)
                            | Inr off \<Rightarrow>
                                (None, w\<lparr>rw_clients := (rw_clients w)
                                   [j := rc_effect (AddIceCandidate off) (rw_clients w ! j)],
                                   rw_log := rw_log w @ [GotNull ''ICE'' i]\<rparr>))
                         else (None, w\<lparr>rw_log := rw_log w @ [GotNull ''ICE'' i]\<rparr>))))
        else (None, w))"

text \<open>
  \<^verbatim>\<open>snapshot.docChanges().forEach(callback)\<close>: the changes in order; an exception in the
  callback ends the loop.
\<close>

fun forEach_change ::
    "(relay_world \<Rightarrow> change_type \<times> jsval \<Rightarrow> error option \<times> relay_world) \<Rightarrow>
     relay_world \<Rightarrow> (change_type \<times> jsval) list \<Rightarrow> error option \<times> relay_world" where
  "forEach_change f w [] = (None, w)"
| "forEach_change f w (ch # chs) =
     (case f w ch of (Some e, w1) \<Rightarrow> (Some e, w1) | (None, w1) \<Rightarrow> forEach_change f w1 chs)"

definition handleOffer :: "relay_world \<Rightarrow> (change_type \<times> jsval) list \<Rightarrow> error option \<times> relay_world" where
  "handleOffer w chs = forEach_change handleOffer_change w chs"

definition handleAnswer :: "relay_world \<Rightarrow> (change_type \<times> jsval) list \<Rightarrow> error option \<times> relay_world" where
  "handleAnswer w chs = forEach_change handleAnswer_change w chs"

definition handleICE :: "relay_world \<Rightarrow> (change_type \<times> jsval) list \<Rightarrow> error option \<times> relay_world" where
  "handleICE w chs = forEach_change handleICE_change w chs"

subsection \<open>Bootstrap of the relay variant\<close>

text \<open>
  \<^verbatim>\<open>init\<close> of the relay variant. The callback writes the registration document itself,
  at the start of every run, and awaits that write; then it goes through the changes of
  the snapshot, and for a change of type \<^verbatim>\<open>modified\<close> it reads \<^verbatim>\<open>registered\<close> from the
  document, awaits the value, and for a truthy one calls \<^verbatim>\<open>unsub()\<close>, deletes the document
  and calls \<^verbatim>\<open>startRouter()\<close>, awaiting both; then it goes on with the next change. There
  is no guard variable. A suspended run keeps the changes it has still to go through.
\<close>

datatype relay_action =
    WriteRegistration
  | CancelSubscription
  | DeleteRegistration
  | StartRouter

datatype relay_callback =
    AwaitSet "(change_type \<times> jsval) list"
  | AwaitRegistered jsval "(change_type \<times> jsval) list"
  | AwaitDeleted "(change_type \<times> jsval) list"
  | AwaitRouter "(change_type \<times> jsval) list"
  | RelayReturned
  | RelayThrew error

record relay_boot =
  relay_subscribed :: bool
  relay_callbacks :: "relay_callback list"
  relay_actions :: "relay_action list"

definition relay_boot_start :: relay_boot where
  "relay_boot_start = \<lparr>relay_subscribed = True, relay_callbacks = [], relay_actions = []\<rparr>"

text \<open>The start of the callback: \<^verbatim>\<open>docRef.set(data)\<close> and the suspension there.\<close>

definition relay_onSnapshot :: "relay_boot \<Rightarrow> (change_type \<times> jsval) list \<Rightarrow> relay_boot" where
  "relay_onSnapshot b cs =
     b\<lparr>relay_callbacks := relay_callbacks b @ [AwaitSet cs],
       relay_actions := relay_actions b @ [WriteRegistration]\<rparr>"

text \<open>
  The \<^verbatim>\<open>for\<close> loop from the changes \<open>cs\<close> on, up to its next \<^verbatim>\<open>await\<close>: it makes no call
  before that.
\<close>

fun changes_loop :: "(change_type \<times> jsval) list \<Rightarrow> relay_callback" where
  "changes_loop [] = RelayReturned"
| "changes_loop (c # cs) =
     (if fst c = Modified then
        (case get_prop (snd c) ''registered'' of
           Inl e \<Rightarrow> RelayThrew e
         | Inr v \<Rightarrow> AwaitRegistered v cs)
      else changes_loop cs)"

definition relay_resume :: "relay_boot \<Rightarrow> nat \<Rightarrow> relay_boot" where
  "relay_resume b k =
     (if k < length (relay_callbacks b) then
        (case relay_callbacks b ! k of
           AwaitSet cs \<Rightarrow> b\<lparr>relay_callbacks := (relay_callbacks b)[k := changes_loop cs]\<rparr>
         | AwaitRegistered v cs \<Rightarrow>
             if truthy v then
               b\<lparr>relay_subscribed := False,
                 relay_callbacks := (relay_callbacks b)[k := AwaitDeleted cs],
                 relay_actions := relay_actions b @ [CancelSubscription, DeleteRegistration]\<rparr>
             else b\<lparr>relay_callbacks := (relay_callbacks b)[k := changes_loop cs]\<rparr>
         | AwaitDeleted cs \<Rightarrow>
             b\<lparr>relay_callbacks := (relay_callbacks b)[k := AwaitRouter cs],
               relay_actions := relay_actions b @ [StartRouter]\<rparr>
         | AwaitRouter cs \<Rightarrow> b\<lparr>relay_callbacks := (relay_callbacks b)[k := changes_loop cs]\<rparr>
         | RelayReturned \<Rightarrow> b
         | RelayThrew e \<Rightarrow> b)
      else b)"

datatype relay_event = RelaySnapshot "(change_type \<times> jsval) list" | RelayResume nat

fun relay_run :: "relay_boot \<Rightarrow> relay_event list \<Rightarrow> relay_boot" where
  "relay_run b [] = b"
| "relay_run b (RelaySnapshot cs # evs) =
     relay_run (if relay_subscribed b then relay_onSnapshot b cs else b) evs"
| "relay_run b (RelayResume k # evs) = relay_run (relay_resume b k) evs"

section \<open>The single-class variant: one \<^verbatim>\<open>Client\<close> class, administrator by identity\<close>

text \<open>
  \<^verbatim>\<open>Response\<close> of this variant: \<^verbatim>\<open>generateGenericMessage(action, data, id, token)\<close> has no
  \<^verbatim>\<open>useAuth\<close> parameter. \<^verbatim>\<open>NODE_AUTH\<close> is \<^verbatim>\<open>"testauth"\<close> and is never assigned;
  \<^verbatim>\<open>NODE_ID\<close> is assigned by the \<^verbatim>\<open>setId\<close> command and read when a message is generated.
\<close>

definition Response_generateGenericMessage :: "jsval \<Rightarrow> jsval \<Rightarrow> jsval \<Rightarrow> jsval \<Rightarrow> wire" where
  "Response_generateGenericMessage act d i t =
     [(''action'', act), (''data'', d), (''id'', i), (''token'', t)]"

definition generateOfferMessage :: "jsval \<Rightarrow> jsval \<Rightarrow> wire" where
  "generateOfferMessage node_id offer =
     Response_generateGenericMessage (JStr ''offer'') offer node_id (JStr ''testauth'')"

definition generateAnswerMessage :: "jsval \<Rightarrow> jsval \<Rightarrow> wire" where
  "generateAnswerMessage node_id answer =
     Response_generateGenericMessage (JStr ''answer'') answer node_id (JStr ''testauth'')"

definition generateRenegotiateMessage :: "jsval \<Rightarrow> wire" where
  "generateRenegotiateMessage node_id =
     Response_generateGenericMessage (JStr ''renegotiate'') JNull node_id (JStr ''testauth'')"

definition generateIceMessage :: "jsval \<Rightarrow> jsval \<Rightarrow> wire" where
  "generateIceMessage node_id candidate =
     Response_generateGenericMessage (JStr ''addICE'') candidate node_id (JStr ''testauth'')"

text \<open>
  Decoding a message with the \<^verbatim>\<open>Request\<close> constructor of this variant (the constructor
  modelled by \<open>SockRequest\<close>) and encoding the request again with
  \<^verbatim>\<open>Response.generateGenericMessage\<close>.
\<close>

definition decode_reencode :: "json_parse \<Rightarrow> error + wire" where
  "decode_reencode msg =
     (case SockRequest msg of
        Inl e \<Rightarrow> Inl e
      | Inr r \<Rightarrow> Inr (Response_generateGenericMessage (action r) (data r) (id_field r) (token r)))"

text \<open>
  The \<^verbatim>\<open>Client\<close> class: \<open>c_id\<close> is its \<^verbatim>\<open>id_\<close>. The clients live in the module-level array
  \<^verbatim>\<open>clients\<close>; a handler is run for the client at a position of that array, because an
  administrator's command changes other clients of the same array.
\<close>

record client =
  c_id :: jsval
  c_clientStream :: "stream option"
  c_isAdmin :: bool
  c_isInitiator :: bool
  c_effects :: "effect list"
  c_tasks :: "stage list"

record world =
  w_NODE_ID :: jsval
  w_clients :: "client list"
  w_log :: "log_entry list"

definition new_client :: client where
  "new_client = \<lparr>c_id = JNull, c_clientStream = None, c_isAdmin = False, c_isInitiator = False,
                  c_effects = [], c_tasks = []\<rparr>"

definition c_effect :: "effect \<Rightarrow> client \<Rightarrow> client" where
  "c_effect e c = c\<lparr>c_effects := c_effects c @ [e]\<rparr>"

definition at_client :: "nat \<Rightarrow> (client \<Rightarrow> client) \<Rightarrow> world \<Rightarrow> world" where
  "at_client i f w = w\<lparr>w_clients := (w_clients w)[i := f (w_clients w ! i)]\<rparr>"

text \<open>
  Strict equality \<^verbatim>\<open>a === b\<close> of two values that come from different messages: two
  primitives are equal when they are the same value; an array or an object is never
  identical to a value parsed from another message.
\<close>

fun primitive :: "jsval \<Rightarrow> bool" where
  "primitive (JArr xs) = False"
| "primitive (JObj fs) = False"
| "primitive v = True"

definition strict_eq :: "jsval \<Rightarrow> jsval \<Rightarrow> bool" where
  "strict_eq a b = (primitive a \<and> a = b)"

text \<open>The last element that satisfies a test: a \<^verbatim>\<open>forEach\<close> that overwrites its result at
  every hit.\<close>

fun find_last :: "('a \<Rightarrow> bool) \<Rightarrow> 'a list \<Rightarrow> nat option" where
  "find_last P [] = None"
| "find_last P (x # xs) =
     (case find_last P xs of Some j \<Rightarrow> Some (Suc j) | None \<Rightarrow> if P x then Some 0 else None)"

text \<open>The function \<^verbatim>\<open>getClientById\<close>: the position of the client found, or nothing for \<^verbatim>\<open>null\<close>.\<close>

definition getClientById :: "client list \<Rightarrow> jsval \<Rightarrow> nat option" where
  "getClientById cs i = find_last (\<lambda>c. strict_eq (c_id c) i) cs"

text \<open>\<^verbatim>\<open>Client.getAuthentication\<close>.\<close>

definition getAuthentication :: "client \<Rightarrow> request \<Rightarrow> bool \<times> client" where
  "getAuthentication c req =
     (let rest = (\<lambda>c1.
            let c2 = (if strict_eq_str (id_field req) ''admin'' then c1\<lparr>c_isAdmin := True\<rparr> else c1)
            in (loose_eq (token req) (JStr ''testauth''), c2))
      in
      if nullish (c_id c) then rest (c\<lparr>c_id := id_field req\<rparr>)
      else if \<not> loose_eq (c_id c) (id_field req) then (False, c)
      else rest c)"

text \<open>\<^verbatim>\<open>addMediaStream\<close>, \<^verbatim>\<open>sendOffer\<close>, \<^verbatim>\<open>sendAnswer\<close> and \<^verbatim>\<open>processAnswer\<close> up to their first
  \<^verbatim>\<open>await\<close>, and \<^verbatim>\<open>renegotiateWebRTC\<close>.\<close>

definition c_addMediaStream :: "client \<Rightarrow> stream option \<Rightarrow> error option \<times> client" where
  "c_addMediaStream c st =
     (case st of
        None \<Rightarrow> (Some TypeError, c)
      | Some m \<Rightarrow> (None, c\<lparr>c_effects := c_effects c @ map (\<lambda>t. AddTrack t m) (getTracks m)\<rparr>))"

definition c_sendOffer :: "client \<Rightarrow> client" where
  "c_sendOffer c =
     (c_effect CreateOffer (c\<lparr>c_isInitiator := True\<rparr>))\<lparr>c_tasks := c_tasks c @ [AwaitCreateOffer]\<rparr>"

definition c_sendAnswer :: "client \<Rightarrow> jsval \<Rightarrow> client" where
  "c_sendAnswer c offer =
     (c_effect (SetRemoteDescription offer) c)\<lparr>c_tasks := c_tasks c @ [AwaitSetRemote]\<rparr>"

definition c_processAnswer :: "client \<Rightarrow> jsval \<Rightarrow> client" where
  "c_processAnswer c answer =
     (c_effect (SetRemoteDescription answer) c)\<lparr>c_tasks := c_tasks c @ [AwaitSetRemoteAnswer]\<rparr>"

definition c_renegotiateWebRTC :: "jsval \<Rightarrow> client \<Rightarrow> client" where
  "c_renegotiateWebRTC node_id c =
     (if c_isInitiator c then c_sendOffer c
      else c_effect (Send (generateRenegotiateMessage node_id)) c)"

text \<open>
  \<^verbatim>\<open>req.data[i]\<close> and \<^verbatim>\<open>req.data.length\<close> of a payload that is not \<^verbatim>\<open>null\<close>: the elements of
  an array, the characters of a string, nothing for a number or a boolean (whose
  \<^verbatim>\<open>length\<close> is undefined, so the loop does not run). A payload that is an object is left
  unspecified.
\<close>

fun js_elems :: "jsval \<Rightarrow> jsval list" where
  "js_elems (JArr xs) = xs"
| "js_elems (JStr s) = map (\<lambda>c. JStr [c]) s"
| "js_elems (JNum n) = []"
| "js_elems (JBool b) = []"

definition js_index :: "jsval list \<Rightarrow> nat \<Rightarrow> jsval" where
  "js_index xs i = (if i < length xs then xs ! i else JUndefined)"

text \<open>
  The routing loop of \<^verbatim>\<open>adminCommands\<close>, \<^verbatim>\<open>for (let i = 1; i < req.data.length; i++)\<close>.
  After the log line for a missing user there is no \<^verbatim>\<open>continue\<close>: the next statement calls
  \<^verbatim>\<open>addMediaStream\<close> on \<^verbatim>\<open>null\<close>. The parameter \<open>reneg\<close> is the \<^verbatim>\<open>renegotiateWebRTC\<close> of the
  variant.
\<close>

function route_loop ::
    "(client \<Rightarrow> client) \<Rightarrow> stream option \<Rightarrow> jsval list \<Rightarrow> nat \<Rightarrow> world \<Rightarrow> error option \<times> world" where
  "route_loop reneg srcStream ds i w =
     (if i < length ds then
        (case getClientById (w_clients w) (ds ! i) of
           None \<Rightarrow> (Some TypeError, w\<lparr>w_log := w_log w @ [NoSuchUser (ds ! i)]\<rparr>)
         | Some j \<Rightarrow>
             (case c_addMediaStream (w_clients w ! j) srcStream of
                (Some e, c) \<Rightarrow> (Some e, w\<lparr>w_clients := (w_clients w)[j := c]\<rparr>)
              | (None, c) \<Rightarrow>
                  route_loop reneg srcStream ds (Suc i)
                    (w\<lparr>w_clients := (w_clients w)[j := reneg c]\<rparr>)))
      else (None, w))"
  by pat_completeness auto
termination
  by (relation "measure (\<lambda>(reneg, srcStream, ds, i, w). length ds - i)") auto

declare route_loop.simps [simp del]

text \<open>
  The routing command on payload \<open>d\<close>:
  \<^verbatim>\<open>getClientById(req.data[0]).mediaStream\<close> throws when the payload is \<^verbatim>\<open>null\<close> and when
  the source is not found.
\<close>

definition route :: "(client \<Rightarrow> client) \<Rightarrow> world \<Rightarrow> jsval \<Rightarrow> error option \<times> world" where
  "route reneg w d =
     (if nullish d then (Some TypeError, w)
      else
        (case getClientById (w_clients w) (js_index (js_elems d) 0) of
           None \<Rightarrow> (Some TypeError, w)
         | Some k \<Rightarrow> route_loop reneg (c_clientStream (w_clients w ! k)) (js_elems d) 1 w))"

text \<open>\<^verbatim>\<open>Client.adminCommands\<close>.\<close>

definition adminCommands :: "world \<Rightarrow> request \<Rightarrow> error option \<times> world" where
  "adminCommands w req =
     (if \<not> truthy (w_NODE_ID w) then (None, w)
      else if strict_eq_str (action req) ''setId'' then (None, w\<lparr>w_NODE_ID := data req\<rparr>)
      else if strict_eq_str (action req) ''addRoute'' then
        route (c_renegotiateWebRTC (w_NODE_ID w)) w (data req)
      else (None, w))"

text \<open>The \<^verbatim>\<open>addICE\<close> case of \<^verbatim>\<open>Client.socketMessage\<close>.\<close>

definition c_addICE :: "client \<Rightarrow> jsval \<Rightarrow> error option \<times> client" where
  "c_addICE c d =
     (case get_prop d ''candidate'' of
        Inl e \<Rightarrow> (Some e, c)
      | Inr cand \<Rightarrow> if truthy cand then (None, c_effect (AddIceCandidate d) c) else (None, c))"

text \<open>\<^verbatim>\<open>Client.socketMessage\<close>, for the client at position \<open>i\<close>.\<close>

definition socketMessage :: "world \<Rightarrow> nat \<Rightarrow> json_parse \<Rightarrow> error option \<times> world" where
  "socketMessage w i msg =
     (case SockRequest msg of
        Inl e \<Rightarrow> (Some e, w)
      | Inr req \<Rightarrow>
          if parseError req then (None, w)
          else
            (let (ok, c1) = getAuthentication (w_clients w ! i) req;
                 w1 = w\<lparr>w_clients := (w_clients w)[i := c1]\<rparr>
             in
             if \<not> ok then (None, at_client i (c_effect PcClose \<circ> c_effect SocketClose) w1)
             else if c_isAdmin c1 then adminCommands w1 req
             else if strict_eq_str (action req) ''offer'' then
               (None, at_client i (\<lambda>c. c_sendAnswer c (data req)) w1)
             else if strict_eq_str (action req) ''answer'' then
               (None, at_client i (\<lambda>c. c_processAnswer c (data req)) w1)
             else if strict_eq_str (action req) ''renegotiate'' then
               (None, at_client i c_sendOffer w1)
             else if strict_eq_str (action req) ''addICE'' then
               (case c_addICE c1 (data req) of (r, c2) \<Rightarrow> (r, w1\<lparr>w_clients := (w_clients w1)[i := c2]\<rparr>))
             else (None, w1)))"

text \<open>
  The continuation of task \<open>k\<close> of the client at position \<open>i\<close> when the engine fulfils
  the promise it awaits with \<open>v\<close>: the rest of \<^verbatim>\<open>sendAnswer\<close>, \<^verbatim>\<open>sendOffer\<close> or
  \<^verbatim>\<open>processAnswer\<close>.
\<close>

definition c_resolved :: "world \<Rightarrow> nat \<Rightarrow> nat \<Rightarrow> jsval \<Rightarrow> world" where
  "c_resolved w i k v =
     (if k < length (c_tasks (w_clients w ! i)) then
        at_client i
          (\<lambda>c. case c_tasks c ! k of
             AwaitSetRemote \<Rightarrow> (c_effect CreateAnswer c)\<lparr>c_tasks := (c_tasks c)[k := AwaitCreateAnswer]\<rparr>
           | AwaitCreateAnswer \<Rightarrow>
               (c_effect (SetLocalDescription v) c)\<lparr>c_tasks := (c_tasks c)[k := AwaitSetLocal v]\<rparr>
           | AwaitSetLocal a \<Rightarrow>
               (c_effect (Send (generateAnswerMessage (w_NODE_ID w) a)) c)
                 \<lparr>c_tasks := (c_tasks c)[k := Finished]\<rparr>
           | AwaitCreateOffer \<Rightarrow>
               (c_effect (SetLocalDescription v) c)\<lparr>c_tasks := (c_tasks c)[k := AwaitSetLocalOffer v]\<rparr>
           | AwaitSetLocalOffer off \<Rightarrow>
               (c_effect (Send (generateOfferMessage (w_NODE_ID w) off)) c)
                 \<lparr>c_tasks := (c_tasks c)[k := Finished]\<rparr>
           | AwaitSetRemoteAnswer \<Rightarrow> c\<lparr>c_tasks := (c_tasks c)[k := Finished]\<rparr>
           | Finished \<Rightarrow> c
           | Failed \<Rightarrow> c) w
      else w)"

text \<open>The \<^verbatim>\<open>onicecandidate\<close> callback of the client at position \<open>i\<close>.\<close>

definition c_onicecandidate :: "world \<Rightarrow> nat \<Rightarrow> jsval \<Rightarrow> world" where
  "c_onicecandidate w i candidate =
     (if truthy candidate then
        at_client i (c_effect (Send (generateIceMessage (w_NODE_ID w) candidate))) w
      else w)"

section \<open>The first variant (\<^verbatim>\<open>src/index.ts\<close>): the \<^verbatim>\<open>command\<close> vocabulary\<close>

text \<open>
  \<^verbatim>\<open>Request\<close> of this variant reads the fields inside the \<^verbatim>\<open>try\<close> block and gives them no
  default. Its \<^verbatim>\<open>catch (SyntaxError)\<close> binds whatever was thrown, so a TypeError of a field
  read is caught as well. A field that was not assigned keeps its initial value:
  \<^verbatim>\<open>null\<close> for \<^verbatim>\<open>data\<close>, undefined for the others.
\<close>

record request_v1 =
  v1_parseError :: bool
  v1_command :: jsval
  v1_data :: jsval
  v1_id :: jsval
  v1_token :: jsval

definition Request :: "json_parse \<Rightarrow> request_v1" where
  "Request msg =
     (let failed = \<lparr>v1_parseError = True, v1_command = JUndefined, v1_data = JNull,
                     v1_id = JUndefined, v1_token = JUndefined\<rparr> in
      case msg of
        SyntaxError \<Rightarrow> failed
      | Parsed parsed \<Rightarrow>
          (case get_prop parsed ''command'' of Inl e \<Rightarrow> failed | Inr c \<Rightarrow>
           case get_prop parsed ''data'' of Inl e \<Rightarrow> failed\<lparr>v1_command := c\<rparr> | Inr d \<Rightarrow>
           case get_prop parsed ''id'' of Inl e \<Rightarrow> failed\<lparr>v1_command := c, v1_data := d\<rparr> | Inr i \<Rightarrow>
           case get_prop parsed ''token'' of
             Inl e \<Rightarrow> failed\<lparr>v1_command := c, v1_data := d, v1_id := i\<rparr>
           | Inr t \<Rightarrow> \<lparr>v1_parseError = False, v1_command = c, v1_data = d, v1_id = i, v1_token = t\<rparr>))"

definition INVALID_REQUEST :: wire where
  "INVALID_REQUEST = [(''command'', JStr ''''), (''error'', JBool True)]"

definition AUTH_FAILED :: wire where
  "AUTH_FAILED = [(''message'', JStr ''Invalid auth''), (''error'', JBool True)]"

definition RENEGOTIATE_RTC :: wire where
  "RENEGOTIATE_RTC =
     [(''message'', JStr ''renegotiate''), (''renegotiate'', JBool True), (''error'', JBool False)]"

text \<open>\<^verbatim>\<open>Client.getAuthentication\<close> of this variant: the same statements, on its own request.\<close>

definition getAuthentication_v1 :: "client \<Rightarrow> request_v1 \<Rightarrow> bool \<times> client" where
  "getAuthentication_v1 c req =
     (let rest = (\<lambda>c1.
            let c2 = (if strict_eq_str (v1_id req) ''admin'' then c1\<lparr>c_isAdmin := True\<rparr> else c1)
            in (loose_eq (v1_token req) (JStr ''testauth''), c2))
      in
      if nullish (c_id c) then rest (c\<lparr>c_id := v1_id req\<rparr>)
      else if \<not> loose_eq (c_id c) (v1_id req) then (False, c)
      else rest c)"

text \<open>\<^verbatim>\<open>Client.adminCommands\<close> of this variant; its \<^verbatim>\<open>renegotiateWebRTC\<close> sends
  \<^verbatim>\<open>RENEGOTIATE_RTC\<close>.\<close>

definition adminCommands_v1 :: "world \<Rightarrow> request_v1 \<Rightarrow> error option \<times> world" where
  "adminCommands_v1 w req =
     (if strict_eq_str (v1_command req) ''connect'' then
        route (c_effect (Send RENEGOTIATE_RTC)) w (v1_data req)
      else (None, w))"

text \<open>
  \<^verbatim>\<open>Client.socketMessage\<close> of this variant, for the client at position \<open>i\<close>. Its
  \<^verbatim>\<open>processOffer\<close> is, up to the first \<^verbatim>\<open>await\<close>, the \<^verbatim>\<open>sendAnswer\<close> above; what it sends
  when the engine has answered is not part of the model.
\<close>

definition socketMessage_v1 :: "world \<Rightarrow> nat \<Rightarrow> json_parse \<Rightarrow> error option \<times> world" where
  "socketMessage_v1 w i msg =
     (let req = Request msg in
      if v1_parseError req then (None, at_client i (c_effect (Send INVALID_REQUEST)) w)
      else
        (let (ok, c1) = getAuthentication_v1 (w_clients w ! i) req;
             w1 = w\<lparr>w_clients := (w_clients w)[i := c1]\<rparr>
         in
         if \<not> ok then
           (None, at_client i (c_effect PcClose \<circ> c_effect SocketClose \<circ> c_effect (Send AUTH_FAILED)) w1)
         else if c_isAdmin c1 then adminCommands_v1 w1 req
         else if strict_eq_str (v1_command req) ''offer'' then
           (None, at_client i (\<lambda>c. c_sendAnswer c (v1_data req)) w1)
         else if strict_eq_str (v1_command req) ''iceCandidate'' then
           (case c_addICE c1 (v1_data req) of (r, c2) \<Rightarrow> (r, w1\<lparr>w_clients := (w_clients w1)[i := c2]\<rparr>))
         else (None, w1)))"

section \<open>The management interface of the role-split variant\<close>

text \<open>
  \<^verbatim>\<open>Management\<close> holds the sessions of the node, each an \<^verbatim>\<open>InboundClient\<close> or an
  \<^verbatim>\<open>OutboundClient\<close>, and assigns \<^verbatim>\<open>NODE_ID\<close>.
\<close>

record management =
  m_NODE_ID :: jsval
  m_clients :: "(role \<times> session) list"
  m_log :: "log_entry list"

text \<open>
  \<^verbatim>\<open>Management.getClientById\<close>: a \<^verbatim>\<open>forEach\<close> that keeps the last hit, comparing the getter
  \<^verbatim>\<open>id\<close>, which is \<^verbatim>\<open>_id ?? ""\<close>.
\<close>

definition m_getClientById :: "(role \<times> session) list \<Rightarrow> jsval \<Rightarrow> nat option" where
  "m_getClientById cs i = find_last (\<lambda>c. strict_eq (coalesce (id' (snd c)) (JStr '''')) i) cs"

text \<open>
  The loop of the \<^verbatim>\<open>addRoute\<close> case, \<^verbatim>\<open>for (let i = 1; i < req.data.length; i++)\<close>: a
  missing destination is logged and the loop continues.
\<close>

function addRoute_loop ::
    "globals \<Rightarrow> stream option \<Rightarrow> jsval list \<Rightarrow> nat \<Rightarrow> management \<Rightarrow> error option \<times> management" where
  "addRoute_loop g srcStream ds i m =
     (if i < length ds then
        (case m_getClientById (m_clients m) (ds ! i) of
           None \<Rightarrow>
             addRoute_loop g srcStream ds (Suc i)
               (m\<lparr>m_log := m_log m @ [RoutingDestinationMissing (ds ! i)]\<rparr>)
         | Some j \<Rightarrow>
             (case m_clients m ! j of (r, user) \<Rightarrow>
                (case addMediaStream user srcStream of
                   (Some e, user1) \<Rightarrow> (Some e, m\<lparr>m_clients := (m_clients m)[j := (r, user1)]\<rparr>)
                 | (None, user1) \<Rightarrow>
                     addRoute_loop g srcStream ds (Suc i)
                       (m\<lparr>m_clients := (m_clients m)[j := (r, renegotiateWebRTC g r user1)]\<rparr>))))
      else (None, m))"
  by pat_completeness auto
termination
  by (relation "measure (\<lambda>(g, srcStream, ds, i, m). length ds - i)") auto

declare addRoute_loop.simps [simp del]

text \<open>
  \<^verbatim>\<open>Management.onManagementMessage\<close>. The \<^verbatim>\<open>connect\<close> case adds an \<^verbatim>\<open>OutboundClient\<close>; its
  first offer is made later, when the new socket opens (the event \<open>Renegotiate\<close> of that
  session).
\<close>

definition onManagementMessage :: "globals \<Rightarrow> management \<Rightarrow> json_parse \<Rightarrow> error option \<times> management" where
  "onManagementMessage g m msg =
     (case SockRequest msg of
        Inl e \<Rightarrow> (Some e, m)
      | Inr req \<Rightarrow>
          if parseError req then (None, m)
          else if strict_eq_str (action req) ''setId'' then (None, m\<lparr>m_NODE_ID := data req\<rparr>)
          else if strict_eq_str (action req) ''addRoute'' then
            (if nullish (data req) then (Some TypeError, m)
             else
               (case m_getClientById (m_clients m) (js_index (js_elems (data req)) 0) of
                  None \<Rightarrow>
                    (None, m\<lparr>m_log := m_log m @
                       [RoutingSourceMissing (js_index (js_elems (data req)) 0)]\<rparr>)
                | Some k \<Rightarrow>
                    addRoute_loop g (first_stream (clientStreams (snd (m_clients m ! k))))
                      (js_elems (data req)) 1 m))
          else if strict_eq_str (action req) ''connect'' then
            (None, m\<lparr>m_clients := m_clients m @ [(Outbound, new_session)]\<rparr>)
          else (None, m))"

text \<open>
  The specification's side of routing, on the management interface: for each destination
  in the given order, look the session up; if it is absent record the failure and go on;
  if it is present attach the source's stream and then request renegotiation.
\<close>

definition spec_serve :: "globals \<Rightarrow> stream \<Rightarrow> role \<times> session \<Rightarrow> role \<times> session" where
  "spec_serve g st c =
     (fst c, renegotiateWebRTC g (fst c) (snd (addMediaStream (snd c) (Some st))))"

fun spec_route :: "globals \<Rightarrow> stream \<Rightarrow> jsval list \<Rightarrow> management \<Rightarrow> management" where
  "spec_route g st [] m = m"
| "spec_route g st (d # ds) m =
     spec_route g st ds
       (case m_getClientById (m_clients m) d of
          None \<Rightarrow> m\<lparr>m_log := m_log m @ [RoutingDestinationMissing d]\<rparr>
        | Some j \<Rightarrow> m\<lparr>m_clients := (m_clients m)[j := spec_serve g st (m_clients m ! j)]\<rparr>)"

section \<open>Invariants used in the proofs\<close>

text \<open>
  The tasks a session of each role can have: an accepting-role session only answers
  offers, an initiating-role session only makes offers and applies answers.
\<close>

fun role_task :: "role \<Rightarrow> stage \<Rightarrow> bool" where
  "role_task Inbound AwaitCreateOffer = False"
| "role_task Inbound (AwaitSetLocalOffer off) = False"
| "role_task Inbound AwaitSetRemoteAnswer = False"
| "role_task Outbound AwaitSetRemote = False"
| "role_task Outbound AwaitCreateAnswer = False"
| "role_task Outbound (AwaitSetLocal a) = False"
| "role_task r t = True"

definition role_invariant :: "role \<Rightarrow> session \<Rightarrow> bool" where
  "role_invariant r s =
     (list_all (\<lambda>e. case e of Send m \<Rightarrow> wire_fields m = role_fields r | _ \<Rightarrow> True) (effects s) \<and>
      list_all (role_task r) (tasks s))"

section \<open>Sample inputs\<close>

text \<open>A camera stream with two tracks, and a relay node that knows alice, bob and carol;
  alice has sent the stream.\<close>

definition camera :: stream where
  "camera = MediaStream ''camera'' [''video'', ''audio'']"

definition relay_client_of :: "string \<Rightarrow> stream option list \<Rightarrow> relay_client" where
  "relay_client_of name sts =
     \<lparr>rc_id = JStr name, rc_isInitiator = False, rc_clientStreams = sts,
      rc_effects = [], rc_tasks = []\<rparr>"

definition relay_example :: relay_world where
  "relay_example =
     \<lparr>rw_NODE_ID = JStr ''node-1'',
      rw_clients = [relay_client_of ''alice'' [Some camera], relay_client_of ''bob'' [],
                    relay_client_of ''carol'' []],
      rw_log = []\<rparr>"

text \<open>
  A node of the single-class variant that knows alice, bob, carol and an administrator;
  alice has sent the camera stream.
\<close>

definition client_of :: "string \<Rightarrow> stream option \<Rightarrow> bool \<Rightarrow> client" where
  "client_of name st adm =
     \<lparr>c_id = JStr name, c_clientStream = st, c_isAdmin = adm, c_isInitiator = False,
      c_effects = [], c_tasks = []\<rparr>"

definition world_example :: world where
  "world_example =
     \<lparr>w_NODE_ID = JStr ''default'',
      w_clients = [client_of ''alice'' (Some camera) False, client_of ''bob'' None False,
                   client_of ''carol'' None False, client_of ''admin'' None True],
      w_log = []\<rparr>"

text \<open>A node with one client that has just connected.\<close>

definition fresh_world :: world where
  "fresh_world = \<lparr>w_NODE_ID = JStr ''default'', w_clients = [new_client], w_log = []\<rparr>"

text \<open>Socket messages, as \<^verbatim>\<open>JSON.parse\<close> returns them.\<close>

definition offer_from :: "string \<Rightarrow> string \<Rightarrow> json_parse" where
  "offer_from name sdp =
     Parsed (JObj [(''action'', JStr ''offer''), (''data'', JStr sdp),
                   (''id'', JStr name), (''token'', JStr ''testauth'')])"

definition node_globals :: globals where
  "node_globals =
     \<lparr>NODE_ID = JStr ''default'', NODE_INSTANCE_NAME = JStr ''default-dev-id'', NODE_AUTH = JStr ''''\<rparr>"

text \<open>A role-split node whose management interface knows alice, bob and carol.\<close>

definition session_of :: "string \<Rightarrow> stream option list \<Rightarrow> session" where
  "session_of name sts = \<lparr>id' = JStr name, clientStreams = sts, effects = [], tasks = []\<rparr>"

definition management_example :: management where
  "management_example =
     \<lparr>m_NODE_ID = JStr ''default'',
      m_clients = [(Inbound, session_of ''alice'' [Some camera]), (Inbound, session_of ''bob'' []),
                   (Inbound, session_of ''carol'' [])],
      m_log = []\<rparr>"

section \<open>Facts about the codec\<close>

lemma SockRequest_SyntaxError [simp]: "SockRequest SyntaxError = Inl TypeError"
  by (simp add: SockRequest_def)

lemma SockRequest_null [simp]: "SockRequest (Parsed JNull) = Inl TypeError"
  by (simp add: SockRequest_def)

lemma SockRequest_object:
  "SockRequest (Parsed (JObj fs)) =
     Inr \<lparr>parseError = False,
          action = coalesce (case map_of fs ''action'' of None \<Rightarrow> JUndefined | Some v \<Rightarrow> v) (JStr ''''),
          data = coalesce (case map_of fs ''data'' of None \<Rightarrow> JUndefined | Some v \<Rightarrow> v) JNull,
          id_field = coalesce (case map_of fs ''id'' of None \<Rightarrow> JUndefined | Some v \<Rightarrow> v) (JStr ''''),
          token = coalesce (case map_of fs ''token'' of None \<Rightarrow> JUndefined | Some v \<Rightarrow> v) (JStr '''')\<rparr>"
  by (simp add: SockRequest_def)

text \<open>The constructor never returns a request flagged \<open>parseError\<close>.\<close>

lemma SockRequest_never_flags:
  assumes "SockRequest msg = Inr req"
  shows "\<not> parseError req"
proof (cases msg)
  case SyntaxError
  with assms show ?thesis by simp
next
  case (Parsed v)
  with assms show ?thesis
    by (cases v) (auto simp: SockRequest_def)
qed

text \<open>
  C4. Decoding structurally invalid text: \<^verbatim>\<open>JSON.parse\<close> throws, the \<^verbatim>\<open>catch\<close> sets
  \<^verbatim>\<open>parseError\<close>, and the next statement reads \<^verbatim>\<open>parsed.action\<close> of an undefined
  \<^verbatim>\<open>parsed\<close>: the constructor throws a TypeError instead of returning a message flagged
  \<^verbatim>\<open>parseError\<close>, and the exception leaves the message handler: of a session of either
  role, of the management interface, and of a client of the single-class variant.
\<close>

theorem C4_invalid_input_throws:
  "SockRequest SyntaxError = Inl TypeError \<and>
   InboundClient_onClientMessage s SyntaxError = (Some TypeError, s) \<and>
   OutboundClient_onClientMessage s SyntaxError = (Some TypeError, s) \<and>
   onManagementMessage g m SyntaxError = (Some TypeError, m) \<and>
   socketMessage w i SyntaxError = (Some TypeError, w)"
  by (simp add: InboundClient_onClientMessage_def OutboundClient_onClientMessage_def
      onManagementMessage_def socketMessage_def)

section \<open>Node bootstrap\<close>

text \<open>
  When every run of the callback gets past \<^verbatim>\<open>await snapshot.data()\<close> before the next
  notification arrives, and the channel constructor accepts the address, the guard does
  what it is there for: the calls are those of the specification.
\<close>

lemma one_at_a_time_after_read:
  "db_read b \<Longrightarrow> subscribed b \<Longrightarrow> n = length (callbacks b) \<Longrightarrow>
     boot_actions (boot_run valid_url b (one_at_a_time n ds)) = boot_actions b"
proof (induction ds arbitrary: b n)
  case Nil
  then show ?case by simp
next
  case (Cons d ds)
  let ?b = "b\<lparr>callbacks := callbacks b @ [Returned]\<rparr>"
  have step: "resume valid_url ?b n = ?b"
    using Cons.prems by (simp add: resume_def)
  have "boot_actions (boot_run valid_url ?b (one_at_a_time (Suc n) ds)) = boot_actions ?b"
    using Cons.prems by (intro Cons.IH) simp_all
  with Cons.prems step show ?case by (simp add: onSnapshot_def)
qed

lemma one_at_a_time_before_read:
  "\<not> db_read b \<Longrightarrow> subscribed b \<Longrightarrow> n = length (callbacks b) \<Longrightarrow>
     boot_actions (boot_run (\<lambda>u. True) b (one_at_a_time n ds)) = boot_actions b @ spec_handoff ds"
proof (induction ds arbitrary: b n)
  case Nil
  then show ?case by (simp add: spec_handoff_def)
next
  case (Cons d ds)
  let ?b = "b\<lparr>callbacks := callbacks b @ [AwaitData d]\<rparr>"
  have start: "(if subscribed b then onSnapshot b d else b) = ?b"
    using Cons.prems by (simp add: onSnapshot_def)
  have at: "n < length (callbacks ?b)" "callbacks ?b ! n = AwaitData d"
    using Cons.prems by simp_all
  show ?case
  proof (cases "assigned_socket d")
    case None
    then obtain c where step: "resume (\<lambda>u. True) ?b n = ?b\<lparr>callbacks := (callbacks ?b)[n := c]\<rparr>"
      using at by (auto simp: resume_def assigned_socket_def split: sum.splits if_splits)
    have "boot_actions (boot_run (\<lambda>u. True) (?b\<lparr>callbacks := (callbacks ?b)[n := c]\<rparr>)
            (one_at_a_time (Suc n) ds)) =
          boot_actions (?b\<lparr>callbacks := (callbacks ?b)[n := c]\<rparr>) @ spec_handoff ds"
      using Cons.prems by (intro Cons.IH) simp_all
    with None start step show ?thesis by (simp add: spec_handoff_def)
  next
    case (Some m)
    let ?c = "?b\<lparr>db_read := True, callbacks := (callbacks ?b)[n := AwaitDelete],
                 boot_actions := boot_actions ?b @
                   [OpenManagementSocket m, StartServer, DeleteDocument]\<rparr>"
    have step: "resume (\<lambda>u. True) ?b n = ?c"
      using at Some by (auto simp: resume_def assigned_socket_def split: sum.splits if_splits)
    have "boot_actions (boot_run (\<lambda>u. True) ?c (one_at_a_time (Suc n) ds)) = boot_actions ?c"
      using Cons.prems by (intro one_at_a_time_after_read) simp_all
    with Some start step show ?thesis by (simp add: spec_handoff_def)
  qed
qed

lemma one_at_a_time_is_spec_handoff:
  "boot_actions (boot_run (\<lambda>u. True) boot_start (one_at_a_time 0 ds)) = spec_handoff ds"
  using one_at_a_time_before_read [of boot_start 0 ds] by (simp add: boot_start_def)

text \<open>
  The scenario of the specification in that delivery: two notifications without an
  assignment, then two that both carry it, the deletion completing, and one more
  notification after the subscription is cancelled.
\<close>

lemma bootstrap_scenario:
  "boot_actions (boot_run (\<lambda>u. True) boot_start
     [Snapshot (JObj [(''management_socket'', JNull)]), Resume 0,
      Snapshot (JObj [(''management_socket'', JNull)]), Resume 1,
      Snapshot (JObj [(''management_socket'', JStr ''ws://manager:8765'')]), Resume 2,
      Snapshot (JObj [(''management_socket'', JStr ''ws://manager:8765'')]), Resume 3,
      Resume 2,
      Snapshot (JObj [(''management_socket'', JStr ''ws://manager:8765'')])]) =
   [OpenManagementSocket (JStr ''ws://manager:8765''), StartServer, DeleteDocument, Unsubscribe]"
  by (simp add: boot_start_def onSnapshot_def resume_def)

text \<open>
  An address the channel constructor rejects: \<^verbatim>\<open>db_read\<close> is already set when it throws,
  so the node opens no channel, keeps the document and the subscription, and ignores the
  corrected assignment that follows.
\<close>

lemma bootstrap_rejected_address:
  "boot_run (\<lambda>u. u = JStr ''ws://manager:8765'') boot_start
     [Snapshot (JObj [(''management_socket'', JStr ''manager'')]), Resume 0,
      Snapshot (JObj [(''management_socket'', JStr ''ws://manager:8765'')]), Resume 1] =
   \<lparr>db_read = True, subscribed = True,
    callbacks = [Threw (InvalidUrl (JStr ''manager'')), Returned], boot_actions = []\<rparr>"
  by (simp add: boot_start_def onSnapshot_def resume_def)

text \<open>
  A single notification with two registered changes makes the relay variant hand off
  twice within one run of the callback: the loop goes on after \<^verbatim>\<open>startRouter()\<close>.
\<close>

lemma relay_bootstrap_two_changes:
  "relay_actions (relay_run relay_boot_start
     [RelaySnapshot [(Modified, JObj [(''registered'', JBool True)]),
                     (Modified, JObj [(''registered'', JBool True)])],
      RelayResume 0, RelayResume 0, RelayResume 0, RelayResume 0,
      RelayResume 0, RelayResume 0, RelayResume 0]) =
   [WriteRegistration, CancelSubscription, DeleteRegistration, StartRouter,
    CancelSubscription, DeleteRegistration, StartRouter]"
  by (simp add: relay_boot_start_def relay_onSnapshot_def relay_resume_def)

text \<open>
  C7 fails on both bootstraps. Role-split variant: two notifications carry the same
  assignment and the second is delivered while the first run of the callback is still
  at \<^verbatim>\<open>await snapshot.data()\<close>. Both runs have passed the test of \<^verbatim>\<open>db_read\<close> by then, and
  each of them opens a management channel, starts a server and deletes the document,
  where the specification asks for one handoff. Relay variant: two notifications with a
  registered change, the second delivered while the first run is still at
  \<^verbatim>\<open>await docRef.set(data)\<close>; each run cancels the subscription, deletes the document and
  starts the router.
\<close>

theorem C7_handoff_done_twice:
  "boot_actions (boot_run (\<lambda>u. True) boot_start
     [Snapshot (JObj [(''management_socket'', JStr ''ws://manager:8765'')]),
      Snapshot (JObj [(''management_socket'', JStr ''ws://manager:8765'')]),
      Resume 0, Resume 1, Resume 0, Resume 1]) =
     [OpenManagementSocket (JStr ''ws://manager:8765''), StartServer, DeleteDocument,
      OpenManagementSocket (JStr ''ws://manager:8765''), StartServer, DeleteDocument,
      Unsubscribe, Unsubscribe] \<and>
   spec_handoff [JObj [(''management_socket'', JStr ''ws://manager:8765'')],
                 JObj [(''management_socket'', JStr ''ws://manager:8765'')]] =
     [OpenManagementSocket (JStr ''ws://manager:8765''), StartServer, DeleteDocument] \<and>
   relay_actions (relay_run relay_boot_start
     [RelaySnapshot [(Modified, JObj [(''registered'', JBool True)])],
      RelaySnapshot [(Modified, JObj [(''registered'', JBool True)])],
      RelayResume 0, RelayResume 1, RelayResume 0, RelayResume 1,
      RelayResume 0, RelayResume 1]) =
     [WriteRegistration, WriteRegistration,
      CancelSubscription, DeleteRegistration, CancelSubscription, DeleteRegistration,
      StartRouter, StartRouter]"
  by (simp add: boot_start_def onSnapshot_def resume_def spec_handoff_def assigned_socket_def
      relay_boot_start_def relay_onSnapshot_def relay_resume_def)

section \<open>Routing\<close>

lemma connectClients_loop_ignores_first:
  "connectClients_loop st (d # ds) (Suc i) w = connectClients_loop st (d' # ds) (Suc i) w"
proof (induction "length ds - i" arbitrary: i w)
  case 0
  then show ?case by (simp add: connectClients_loop.simps [of _ _ "Suc i"])
next
  case (Suc n)
  then have less: "i < length ds" and n: "n = length ds - Suc i" by auto
  show ?case
    using Suc.hyps(1) [OF n] less
    by (simp add: connectClients_loop.simps [of _ _ "Suc i"] split: option.splits prod.splits)
qed

text \<open>
  The relay variant's \<^verbatim>\<open>connectClients\<close> never looks at the first destination: its result is
  the same whatever stands there.
\<close>

lemma connectClients_ignores_first:
  "connectClients w src (d # ds) = connectClients w src (d' # ds)"
  unfolding connectClients_def
  using connectClients_loop_ignores_first [of _ d ds 0 w d']
  by (simp split: option.splits)

text \<open>
  C1. The route command of the example on the relay variant, with alice, bob and carol
  connected and no ghost: the missing ghost is logged once and carol gets alice's tracks and
  the renegotiation request, but bob, the first destination, gets nothing, because the loop
  counter starts at 1.
\<close>

theorem C1_first_destination_skipped:
  "connectClients relay_example (JStr ''alice'') [JStr ''bob'', JStr ''ghost'', JStr ''carol''] =
     (None, relay_example\<lparr>
        rw_clients :=
          [relay_client_of ''alice'' [Some camera],
           relay_client_of ''bob'' [],
           (relay_client_of ''carol'' [])\<lparr>rc_effects :=
              [AddTrack ''video'' camera, AddTrack ''audio'' camera,
               DbSet ''commands'' [(''id'', JStr ''node-1''), (''command'', JStr ''renegotiate'')]]\<rparr>],
        rw_log := [RoutingDestinationMissing (JStr ''ghost'')]\<rparr>)"
  by (simp add: connectClients_def connectClients_loop.simps relay_example_def relay_client_of_def
      rw_getClientById_def rc_addMediaStream_def rc_renegotiateWebRTC_def rc_effect_def
      first_stream_def camera_def)

text \<open>
  The same command sent by the administrator of the single-class variant, where the
  payload is the source followed by the destinations: bob is served, the missing ghost is
  logged, and the call on the missing client throws, so carol is never reached.
\<close>

lemma single_class_route_stops_at_missing:
  "socketMessage world_example 3
     (Parsed (JObj [(''action'', JStr ''addRoute''),
                    (''data'', JArr [JStr ''alice'', JStr ''bob'', JStr ''ghost'', JStr ''carol'']),
                    (''id'', JStr ''admin''), (''token'', JStr ''testauth'')])) =
   (Some TypeError, world_example\<lparr>
      w_clients :=
        [client_of ''alice'' (Some camera) False,
         (client_of ''bob'' None False)\<lparr>c_effects :=
            [AddTrack ''video'' camera, AddTrack ''audio'' camera,
             Send [(''action'', JStr ''renegotiate''), (''data'', JNull),
                   (''id'', JStr ''default''), (''token'', JStr ''testauth'')]]\<rparr>,
         client_of ''carol'' None False,
         client_of ''admin'' None True],
      w_log := [NoSuchUser (JStr ''ghost'')]\<rparr>)"
  by (simp add: socketMessage_def SockRequest_def coalesce_def getAuthentication_def
      strict_eq_str_def adminCommands_def route_def route_loop.simps js_index_def
      getClientById_def strict_eq_def world_example_def client_of_def c_addMediaStream_def
      c_renegotiateWebRTC_def c_effect_def generateRenegotiateMessage_def
      Response_generateGenericMessage_def camera_def)

section \<open>Relay handlers\<close>

lemma find_first_less: "find_first P xs = Some j \<Longrightarrow> j < length xs"
  by (induction xs arbitrary: j) (auto split: if_splits)

text \<open>
  What the answer handler passes to the session, for any added document of a known
  client with a truthy \<^verbatim>\<open>answer\<close>: the document's \<^verbatim>\<open>offer\<close> field.
\<close>

lemma handleAnswer_change_passes_offer_field:
  assumes "get_prop doc ''id'' = Inr i"
    and "rw_getClientById (rw_clients w) i = Some j"
    and "get_prop doc ''answer'' = Inr a" and "truthy a"
    and "get_prop doc ''offer'' = Inr off"
  shows "rc_effects (rw_clients (snd (handleAnswer_change w (Added, doc))) ! j) =
           rc_effects (rw_clients w ! j) @ [SetRemoteDescription off]"
proof -
  from assms(2) have "j < length (rw_clients w)"
    unfolding rw_getClientById_def by (rule find_first_less)
  with assms show ?thesis
    by (simp add: handleAnswer_change_def rc_effect_def)
qed

lemma handleICE_change_passes_offer_field:
  assumes "get_prop doc ''id'' = Inr i"
    and "rw_getClientById (rw_clients w) i = Some j"
    and "get_prop doc ''ice'' = Inr c" and "truthy c"
    and "get_prop doc ''offer'' = Inr off"
  shows "rc_effects (rw_clients (snd (handleICE_change w (Added, doc))) ! j) =
           rc_effects (rw_clients w ! j) @ [AddIceCandidate off]"
proof -
  from assms(2) have "j < length (rw_clients w)"
    unfolding rw_getClientById_def by (rule find_first_less)
  with assms show ?thesis
    by (simp add: handleICE_change_def rc_effect_def)
qed

text \<open>The offer handler, by contrast, passes the field it tests.\<close>

lemma handleOffer_change_passes_offer_field:
  assumes "get_prop doc ''id'' = Inr i"
    and "rw_getClientById (rw_clients w) i = Some j"
    and "get_prop doc ''offer'' = Inr off" and "truthy off"
  shows "rc_effects (rw_clients (snd (handleOffer_change w (Added, doc))) ! j) =
           rc_effects (rw_clients w ! j) @ [SetRemoteDescription off]"
proof -
  from assms(2) have "j < length (rw_clients w)"
    unfolding rw_getClientById_def by (rule find_first_less)
  with assms show ?thesis
    by (simp add: handleOffer_change_def rc_effect_def)
qed

text \<open>
  C8. An added answer document and an added ICE document for alice, each with its own
  payload field and no \<^verbatim>\<open>offer\<close> field: the session's \<^verbatim>\<open>setRemoteDescription\<close> and
  \<^verbatim>\<open>addIceCandidate\<close> are called with \<^verbatim>\<open>undefined\<close>, the value of the absent \<^verbatim>\<open>offer\<close>
  field, not with the document's payload.
\<close>

theorem C8_answer_and_ice_read_offer_field:
  "rc_effects (rw_clients (snd (handleAnswer relay_example
      [(Added, JObj [(''id'', JStr ''alice''), (''answer'', JStr ''sdp-answer'')])])) ! 0) =
     [SetRemoteDescription JUndefined] \<and>
   rc_effects (rw_clients (snd (handleICE relay_example
      [(Added, JObj [(''id'', JStr ''alice''), (''ice'', JStr ''candidate:1'')])])) ! 0) =
     [AddIceCandidate JUndefined]"
  by (simp add: handleAnswer_def handleICE_def handleAnswer_change_def handleICE_change_def
      relay_example_def relay_client_of_def rw_getClientById_def rc_effect_def)

section \<open>Round trip of the codec\<close>

text \<open>
  C9, as stated, fails: a message whose \<^verbatim>\<open>id\<close> and \<^verbatim>\<open>token\<close> are present with the value
  \<^verbatim>\<open>null\<close> comes back, decoded and encoded again, with the empty string in both.
\<close>

theorem C9_null_field_not_preserved:
  "decode_reencode (Parsed (JObj [(''action'', JStr ''offer''), (''data'', JStr ''sdp''),
                                  (''id'', JNull), (''token'', JNull)])) =
     Inr [(''action'', JStr ''offer''), (''data'', JStr ''sdp''),
          (''id'', JStr ''''), (''token'', JStr '''')]"
  by (simp add: decode_reencode_def SockRequest_def coalesce_def Response_generateGenericMessage_def)

text \<open>
  C9, amended. For every encoded message, that is every object \<^verbatim>\<open>JSON.parse\<close> returns,
  decoding succeeds, and encoding the decoded request again gives the four fields
  \<^verbatim>\<open>action\<close>, \<^verbatim>\<open>data\<close>, \<^verbatim>\<open>id\<close>, \<^verbatim>\<open>token\<close>, where each field that the input has with a
  value other than \<^verbatim>\<open>null\<close> keeps exactly that value, an \<^verbatim>\<open>action\<close>, \<^verbatim>\<open>id\<close> or \<^verbatim>\<open>token\<close>
  that is absent or \<^verbatim>\<open>null\<close> becomes the empty string, and a \<^verbatim>\<open>data\<close> that is absent or
  \<^verbatim>\<open>null\<close> becomes \<^verbatim>\<open>null\<close>.
\<close>

theorem C9_decode_reencode:
  "\<exists>out. decode_reencode (Parsed (JObj fs)) = Inr out \<and>
     wire_fields out = [''action'', ''data'', ''id'', ''token''] \<and>
     (\<forall>k v. k \<in> {''action'', ''data'', ''id'', ''token''} \<longrightarrow>
        map_of fs k = Some v \<longrightarrow> \<not> nullish v \<longrightarrow> map_of out k = Some v) \<and>
     (\<forall>k. k \<in> {''action'', ''id'', ''token''} \<longrightarrow>
        (case map_of fs k of None \<Rightarrow> True | Some v \<Rightarrow> nullish v) \<longrightarrow>
        map_of out k = Some (JStr '''')) \<and>
     ((case map_of fs ''data'' of None \<Rightarrow> True | Some v \<Rightarrow> nullish v) \<longrightarrow>
        map_of out ''data'' = Some JNull)"
  by (auto simp: decode_reencode_def SockRequest_object Response_generateGenericMessage_def
      coalesce_def wire_fields_def split: option.splits)

theorem C9_decode_reencode_witness:
  "\<exists>out. decode_reencode (Parsed (JObj [(''action'', JStr ''offer''), (''data'', JStr ''sdp''),
                                        (''id'', JStr ''alice'')])) = Inr out \<and>
     map_of out ''action'' = Some (JStr ''offer'') \<and>
     map_of out ''data'' = Some (JStr ''sdp'') \<and>
     map_of out ''id'' = Some (JStr ''alice'') \<and>
     map_of out ''token'' = Some (JStr '''')"
proof -
  let ?fs = "[(''action'', JStr ''offer''), (''data'', JStr ''sdp''), (''id'', JStr ''alice'')]"
  from C9_decode_reencode [of ?fs] obtain out where
    dec: "decode_reencode (Parsed (JObj ?fs)) = Inr out"
    and present: "\<forall>k v. k \<in> {''action'', ''data'', ''id'', ''token''} \<longrightarrow>
        map_of ?fs k = Some v \<longrightarrow> \<not> nullish v \<longrightarrow> map_of out k = Some v"
    and absent: "\<forall>k. k \<in> {''action'', ''id'', ''token''} \<longrightarrow>
        (case map_of ?fs k of None \<Rightarrow> True | Some v \<Rightarrow> nullish v) \<longrightarrow>
        map_of out k = Some (JStr '''')"
    by blast
  from present have "map_of out ''action'' = Some (JStr ''offer'')"
    and "map_of out ''data'' = Some (JStr ''sdp'')"
    and "map_of out ''id'' = Some (JStr ''alice'')"
    by simp_all
  moreover from absent have "map_of out ''token'' = Some (JStr '''')" by simp
  ultimately show ?thesis using dec by blast
qed

section \<open>The authentication gate of the role-split variant\<close>

lemma SockRequest_id_not_nullish:
  assumes "SockRequest msg = Inr req"
  shows "\<not> nullish (id_field req)"
proof (cases msg)
  case SyntaxError
  with assms show ?thesis by simp
next
  case (Parsed v)
  with assms show ?thesis
    by (cases v) (auto simp: SockRequest_def coalesce_def split: option.splits if_splits)
qed



lemma addICE_id [simp]: "id' (snd (addICE s d)) = id' s"
  by (auto simp: addICE_def do_effect_def split: sum.splits)



section \<open>Negotiation of an accepting-role session\<close>

lemma offer_from_decodes:
  "SockRequest (offer_from name sdp) =
     Inr \<lparr>parseError = False, action = JStr ''offer'', data = JStr sdp,
          id_field = JStr name, token = JStr ''testauth''\<rparr>"
  by (simp add: offer_from_def SockRequest_def coalesce_def)





lemma resolved_other_task:
  "j \<noteq> k \<Longrightarrow> tasks (resolved g s k v) ! j = tasks s ! j"
  by (auto simp: resolved_def do_effect_def split: stage.splits)

lemma resolved_length [simp]: "length (tasks (resolved g s k v)) = length (tasks s)"
  by (auto simp: resolved_def do_effect_def split: stage.splits)





section \<open>Binding of the identity\<close>

text \<open>
  The gate of the role-split variant keeps a bound identity: once the identity is not
  \<^verbatim>\<open>null\<close>, no request changes it, and a request whose \<^verbatim>\<open>id\<close> is another string fails. The
  constructor never hands it a \<^verbatim>\<open>null\<close> or undefined \<^verbatim>\<open>id\<close>, so the first request the gate
  sees binds the identity for good.
\<close>

lemma authenticateRequest_keeps_bound_id:
  "\<not> nullish (id' s) \<Longrightarrow> id' (snd (authenticateRequest s req)) = id' s"
  by (simp add: authenticateRequest_def)

lemma authenticateRequest_rejects_other_id:
  "id' s = JStr a \<Longrightarrow> id_field req = JStr b \<Longrightarrow> a \<noteq> b \<Longrightarrow> authenticateRequest s req = (False, s)"
  by (simp add: authenticateRequest_def)

lemma authenticateRequest_binds_first:
  "nullish (id' s) \<Longrightarrow> id' (snd (authenticateRequest s req)) = id_field req"
  by (simp add: authenticateRequest_def)

lemma InboundClient_id:
  "id' (snd (InboundClient_onClientMessage s msg)) = id' s \<or>
   (nullish (id' s) \<and> \<not> nullish (id' (snd (InboundClient_onClientMessage s msg))))"
proof (cases "SockRequest msg")
  case (Inl e)
  then show ?thesis by (simp add: InboundClient_onClientMessage_def)
next
  case (Inr req)
  then have "\<not> nullish (id_field req)" by (rule SockRequest_id_not_nullish)
  with Inr show ?thesis
    by (auto simp: InboundClient_onClientMessage_def authenticateRequest_def close_def
        do_effect_def getRtcAnswer_def split: if_splits)
qed

lemma OutboundClient_id: "id' (snd (OutboundClient_onClientMessage s msg)) = id' s"
  by (auto simp: OutboundClient_onClientMessage_def processAnswer_def sendOffer_def do_effect_def
      split: sum.splits)

lemma step_keeps_bound_id:
  assumes "\<not> nullish (id' s)"
  shows "id' (snd (step g r s ev)) = id' s"
proof (cases ev)
  case (Message msg)
  then show ?thesis
    using assms InboundClient_id [of s msg] OutboundClient_id [of s msg]
    by (cases r) (auto simp: step_def)
next
  case (Resolved k v)
  then show ?thesis by (auto simp: step_def resolved_def do_effect_def split: stage.splits)
next
  case (Rejected k)
  then show ?thesis by (simp add: step_def rejected_def)
next
  case (IceCandidate c)
  then show ?thesis by (simp add: step_def sendIce_def do_effect_def)
next
  case (Track sts)
  then show ?thesis by (simp add: step_def)
next
  case Renegotiate
  then show ?thesis
    by (cases r) (simp_all add: step_def renegotiateWebRTC_def sendOffer_def do_effect_def)
next
  case (AddMediaStream st)
  then show ?thesis by (simp add: step_def addMediaStream_def split: option.splits)
next
  case Close
  then show ?thesis by (simp add: step_def close_def do_effect_def)
qed

text \<open>Over any run of events a bound identity of a session stays what it is.\<close>

lemma run_keeps_bound_id:
  "\<not> nullish (id' s) \<Longrightarrow> id' (run g r s evs) = id' s"
proof (induction evs arbitrary: s)
  case Nil
  then show ?case by simp
next
  case (Cons ev evs)
  from Cons.prems have "id' (snd (step g r s ev)) = id' s" by (rule step_keeps_bound_id)
  with Cons show ?case by simp
qed

text \<open>The constructor of the first variant always returns, and flags what it could not read.\<close>

lemma Request_flags_failures:
  "v1_parseError (Request SyntaxError)" "v1_parseError (Request (Parsed JNull))"
  by (simp_all add: Request_def)

text \<open>
  C2. In the first variant a message without \<^verbatim>\<open>id\<close> decodes to a request whose \<^verbatim>\<open>id\<close> is
  undefined. Sent first on a new connection with the right token, it authenticates and
  leaves \<^verbatim>\<open>id_\<close> undefined; the next message, with \<^verbatim>\<open>id\<close> mallory, finds \<^verbatim>\<open>id_ == null\<close>
  true, binds mallory and authenticates too. Both offers are processed and nothing is
  closed.
\<close>

theorem C2_first_variant_rebinds:
  "getAuthentication_v1 new_client
     (Request (Parsed (JObj [(''command'', JStr ''offer''), (''data'', JStr ''offer-1''),
                             (''token'', JStr ''testauth'')]))) =
     (True, new_client\<lparr>c_id := JUndefined\<rparr>) \<and>
   getAuthentication_v1 (new_client\<lparr>c_id := JUndefined\<rparr>)
     (Request (Parsed (JObj [(''command'', JStr ''offer''), (''data'', JStr ''offer-2''),
                             (''id'', JStr ''mallory''), (''token'', JStr ''testauth'')]))) =
     (True, new_client\<lparr>c_id := JStr ''mallory''\<rparr>) \<and>
   snd (socketMessage_v1 (snd (socketMessage_v1 fresh_world 0
       (Parsed (JObj [(''command'', JStr ''offer''), (''data'', JStr ''offer-1''),
                      (''token'', JStr ''testauth'')])))) 0
       (Parsed (JObj [(''command'', JStr ''offer''), (''data'', JStr ''offer-2''),
                      (''id'', JStr ''mallory''), (''token'', JStr ''testauth'')]))) =
     fresh_world\<lparr>w_clients :=
       [new_client\<lparr>c_id := JStr ''mallory'',
          c_effects := [SetRemoteDescription (JStr ''offer-1''), SetRemoteDescription (JStr ''offer-2'')],
          c_tasks := [AwaitSetRemote, AwaitSetRemote]\<rparr>]\<rparr>"
  by (simp add: socketMessage_v1_def Request_def getAuthentication_v1_def strict_eq_str_def
      fresh_world_def new_client_def at_client_def c_sendAnswer_def c_effect_def)

section \<open>Fields of the messages a session sends\<close>

lemma RESP_fields [simp]:
  "wire_fields (RESP_ANSWER g a) = [''action'', ''data'']"
  "wire_fields (RESP_RENEG g) = [''action'', ''data'']"
  "wire_fields (RESP_ICE g c False) = [''action'', ''data'']"
  "wire_fields (RESP_ICE g c True) = [''action'', ''data'', ''id'', ''token'']"
  "wire_fields (RESP_OFFER g off) = [''action'', ''data'', ''id'', ''token'']"
  by (simp_all add: wire_fields_def RESP_ANSWER_def RESP_RENEG_def RESP_ICE_def RESP_OFFER_def
      SockResponse_generateGenericMessage_def)

lemma list_all_update: "list_all P xs \<Longrightarrow> P y \<Longrightarrow> list_all P (xs[k := y])"
  by (induction xs arbitrary: k) (auto split: nat.splits)

lemma Inbound_message_invariant:
  "role_invariant Inbound s \<Longrightarrow> role_invariant Inbound (snd (InboundClient_onClientMessage s msg))"
  by (auto simp: role_invariant_def InboundClient_onClientMessage_def authenticateRequest_def
      close_def getRtcAnswer_def addICE_def do_effect_def split: sum.splits if_splits)

lemma Outbound_message_invariant:
  "role_invariant Outbound s \<Longrightarrow> role_invariant Outbound (snd (OutboundClient_onClientMessage s msg))"
  by (auto simp: role_invariant_def OutboundClient_onClientMessage_def processAnswer_def
      sendOffer_def addICE_def do_effect_def split: sum.splits if_splits)

lemma resolved_invariant:
  assumes "role_invariant r s"
  shows "role_invariant r (resolved g s k v)"
proof (cases "k < length (tasks s)")
  case False
  with assms show ?thesis by (simp add: resolved_def)
next
  case True
  from assms have all: "list_all (role_task r) (tasks s)" by (simp add: role_invariant_def)
  with True have t: "role_task r (tasks s ! k)" by (simp add: list_all_length)
  show ?thesis
  proof (cases r)
    case Inbound
    with assms True t all show ?thesis
      by (cases "tasks s ! k")
         (auto simp: role_invariant_def resolved_def do_effect_def role_fields_def
           intro: list_all_update)
  next
    case Outbound
    with assms True t all show ?thesis
      by (cases "tasks s ! k")
         (auto simp: role_invariant_def resolved_def do_effect_def role_fields_def
           intro: list_all_update)
  qed
qed

lemma step_invariant:
  assumes "role_invariant r s"
  shows "role_invariant r (snd (step g r s ev))"
proof (cases ev)
  case (Message msg)
  with assms show ?thesis
    by (cases r) (simp_all add: step_def Inbound_message_invariant Outbound_message_invariant)
next
  case (Resolved k v)
  with assms show ?thesis by (simp add: step_def resolved_invariant)
next
  case (Rejected k)
  with assms show ?thesis
    by (auto simp: step_def rejected_def role_invariant_def intro: list_all_update)
next
  case (IceCandidate c)
  with assms show ?thesis
    by (cases r) (auto simp: step_def sendIce_def do_effect_def role_invariant_def role_fields_def)
next
  case (Track sts)
  with assms show ?thesis by (simp add: step_def role_invariant_def)
next
  case Renegotiate
  with assms show ?thesis
    by (cases r)
       (auto simp: step_def renegotiateWebRTC_def sendOffer_def do_effect_def role_invariant_def
         role_fields_def)
next
  case (AddMediaStream st)
  with assms show ?thesis
    by (auto simp: step_def addMediaStream_def role_invariant_def list_all_iff split: option.splits)
next
  case Close
  with assms show ?thesis by (simp add: step_def close_def do_effect_def role_invariant_def)
qed

lemma run_invariant: "role_invariant r s \<Longrightarrow> role_invariant r (run g r s evs)"
  by (induction evs arbitrary: s) (simp_all add: step_invariant)

lemma new_session_invariant: "role_invariant r new_session"
  by (simp add: role_invariant_def new_session_def)

text \<open>
  C6, as stated, fails on the single-class variant: a client that has just connected
  receives alice's offer and answers it; the answer it sends carries the node's \<^verbatim>\<open>id\<close> and
  \<^verbatim>\<open>token\<close>.
\<close>

theorem C6_single_class_answer_has_id_and_token:
  "c_effects (w_clients
     (c_resolved (c_resolved (c_resolved
        (snd (socketMessage fresh_world 0 (offer_from ''alice'' ''offer-1'')))
        0 0 JUndefined) 0 0 (JStr ''answer-1'')) 0 0 JUndefined) ! 0) =
   [SetRemoteDescription (JStr ''offer-1''), CreateAnswer, SetLocalDescription (JStr ''answer-1''),
    Send [(''action'', JStr ''answer''), (''data'', JStr ''answer-1''),
          (''id'', JStr ''default''), (''token'', JStr ''testauth'')]]"
  by (simp add: socketMessage_def offer_from_decodes getAuthentication_def strict_eq_str_def
      fresh_world_def new_client_def at_client_def c_sendAnswer_def c_effect_def c_resolved_def
      generateAnswerMessage_def Response_generateGenericMessage_def)

text \<open>
  C6, amended. In the role-split variant, over any run of events from a new session,
  every message an accepting-role session sends has the fields \<^verbatim>\<open>action\<close> and \<^verbatim>\<open>data\<close> and no
  others, and every message an initiating-role session sends has \<^verbatim>\<open>action\<close>, \<^verbatim>\<open>data\<close>,
  \<^verbatim>\<open>id\<close> and \<^verbatim>\<open>token\<close>. In the single-class variant every generated message, the answer and
  the renegotiation request included, has all four fields.
\<close>

theorem C6_fields_by_role:
  "(\<forall>m. Send m \<in> set (effects (run g r new_session evs)) \<longrightarrow> wire_fields m = role_fields r) \<and>
   wire_fields (generateAnswerMessage n a) = [''action'', ''data'', ''id'', ''token''] \<and>
   wire_fields (generateRenegotiateMessage n) = [''action'', ''data'', ''id'', ''token''] \<and>
   wire_fields (generateIceMessage n c) = [''action'', ''data'', ''id'', ''token''] \<and>
   wire_fields (generateOfferMessage n off) = [''action'', ''data'', ''id'', ''token'']"
proof -
  have "role_invariant r (run g r new_session evs)"
    by (rule run_invariant) (rule new_session_invariant)
  then have "\<forall>m. Send m \<in> set (effects (run g r new_session evs)) \<longrightarrow> wire_fields m = role_fields r"
    by (auto simp: role_invariant_def list_all_iff)
  then show ?thesis
    by (simp add: wire_fields_def generateAnswerMessage_def generateRenegotiateMessage_def
        generateIceMessage_def generateOfferMessage_def Response_generateGenericMessage_def)
qed

theorem C6_fields_by_role_witness:
  "Send (RESP_ANSWER node_globals (JStr ''answer-1'')) \<in>
     set (effects (run node_globals Inbound new_session
       [Message (offer_from ''alice'' ''offer-1''), Resolved 0 JUndefined,
        Resolved 0 (JStr ''answer-1''), Resolved 0 JUndefined])) \<and>
   wire_fields (RESP_ANSWER node_globals (JStr ''answer-1'')) = role_fields Inbound \<and>
   Send (RESP_OFFER node_globals (JStr ''offer-9'')) \<in>
     set (effects (run node_globals Outbound new_session
       [Renegotiate, Resolved 0 (JStr ''offer-9''), Resolved 0 JUndefined])) \<and>
   wire_fields (RESP_OFFER node_globals (JStr ''offer-9'')) = role_fields Outbound"
proof -
  let ?evs = "[Message (offer_from ''alice'' ''offer-1''), Resolved 0 JUndefined,
               Resolved 0 (JStr ''answer-1''), Resolved 0 JUndefined]"
  let ?evs' = "[Renegotiate, Resolved 0 (JStr ''offer-9''), Resolved 0 JUndefined]"
  have a: "Send (RESP_ANSWER node_globals (JStr ''answer-1'')) \<in>
      set (effects (run node_globals Inbound new_session ?evs))"
    by (simp add: step_def InboundClient_onClientMessage_def offer_from_decodes
        authenticateRequest_def new_session_def strict_eq_str_def getRtcAnswer_def do_effect_def
        resolved_def)
  have b: "Send (RESP_OFFER node_globals (JStr ''offer-9'')) \<in>
      set (effects (run node_globals Outbound new_session ?evs'))"
    by (simp add: step_def renegotiateWebRTC_def sendOffer_def new_session_def do_effect_def
        resolved_def)
  from a b C6_fields_by_role [of node_globals Inbound ?evs]
    C6_fields_by_role [of node_globals Outbound ?evs']
  show ?thesis by blast
qed

section \<open>The gate before the token check\<close>

text \<open>
  C10. In each of the three gates, a session without identity takes the \<^verbatim>\<open>id\<close> of the
  request before the token is looked at: the session after the call has that identity
  (and, in the two variants with administrator commands, the administrator flag when the
  \<^verbatim>\<open>id\<close> is \<^verbatim>\<open>"admin"\<close>), whatever the token is. So when the first message of a connection
  carries a wrong token, the handler tears the session down with the identity bound to
  that message's \<^verbatim>\<open>id\<close>.
\<close>

theorem C10_binding_precedes_token_check:
  assumes "nullish (id' s)"
    and "i < length (w_clients w)" and "nullish (c_id (w_clients w ! i))"
    and "SockRequest msg = Inr req" and "\<not> loose_eq (token req) (JStr ''testauth'')"
    and "\<not> v1_parseError (Request msg)"
    and "\<not> loose_eq (v1_token (Request msg)) (JStr ''testauth'')"
  shows "(\<forall>r. snd (authenticateRequest s r) = s\<lparr>id' := id_field r\<rparr>) \<and>
         (\<forall>r. snd (getAuthentication (w_clients w ! i) r) =
           (w_clients w ! i)\<lparr>c_id := id_field r,
              c_isAdmin := (c_isAdmin (w_clients w ! i) \<or> id_field r = JStr ''admin'')\<rparr>) \<and>
         (\<forall>r. snd (getAuthentication_v1 (w_clients w ! i) r) =
           (w_clients w ! i)\<lparr>c_id := v1_id r,
              c_isAdmin := (c_isAdmin (w_clients w ! i) \<or> v1_id r = JStr ''admin'')\<rparr>) \<and>
         InboundClient_onClientMessage s msg = (None, close (s\<lparr>id' := id_field req\<rparr>)) \<and>
         socketMessage w i msg =
           (None, w\<lparr>w_clients := (w_clients w)[i := (w_clients w ! i)\<lparr>c_id := id_field req,
              c_isAdmin := (c_isAdmin (w_clients w ! i) \<or> id_field req = JStr ''admin''),
              c_effects := c_effects (w_clients w ! i) @ [SocketClose, PcClose]\<rparr>]\<rparr>) \<and>
         socketMessage_v1 w i msg =
           (None, w\<lparr>w_clients := (w_clients w)[i := (w_clients w ! i)\<lparr>c_id := v1_id (Request msg),
              c_isAdmin := (c_isAdmin (w_clients w ! i) \<or> v1_id (Request msg) = JStr ''admin''),
              c_effects := c_effects (w_clients w ! i) @ [Send AUTH_FAILED, SocketClose, PcClose]\<rparr>]\<rparr>)"
proof -
  have np: "\<not> parseError req" using assms(4) by (rule SockRequest_never_flags)
  have g1: "authenticateRequest s req = (False, s\<lparr>id' := id_field req\<rparr>)"
    using assms(1,5) by (simp add: authenticateRequest_def)
  have g2: "getAuthentication (w_clients w ! i) req =
      (False, (w_clients w ! i)\<lparr>c_id := id_field req,
         c_isAdmin := (c_isAdmin (w_clients w ! i) \<or> id_field req = JStr ''admin'')\<rparr>)"
    using assms(3,5) by (simp add: getAuthentication_def strict_eq_str_def)
  have g3: "getAuthentication_v1 (w_clients w ! i) (Request msg) =
      (False, (w_clients w ! i)\<lparr>c_id := v1_id (Request msg),
         c_isAdmin := (c_isAdmin (w_clients w ! i) \<or> v1_id (Request msg) = JStr ''admin'')\<rparr>)"
    using assms(3,7) by (simp add: getAuthentication_v1_def strict_eq_str_def)
  have h1: "InboundClient_onClientMessage s msg = (None, close (s\<lparr>id' := id_field req\<rparr>))"
    using assms(4) np g1 by (simp add: InboundClient_onClientMessage_def)
  have h2: "socketMessage w i msg =
      (None, w\<lparr>w_clients := (w_clients w)[i := (w_clients w ! i)\<lparr>c_id := id_field req,
         c_isAdmin := (c_isAdmin (w_clients w ! i) \<or> id_field req = JStr ''admin''),
         c_effects := c_effects (w_clients w ! i) @ [SocketClose, PcClose]\<rparr>]\<rparr>)"
    using assms(2,4) np g2 by (simp add: socketMessage_def at_client_def c_effect_def)
  have h3: "socketMessage_v1 w i msg =
      (None, w\<lparr>w_clients := (w_clients w)[i := (w_clients w ! i)\<lparr>c_id := v1_id (Request msg),
         c_isAdmin := (c_isAdmin (w_clients w ! i) \<or> v1_id (Request msg) = JStr ''admin''),
         c_effects := c_effects (w_clients w ! i) @ [Send AUTH_FAILED, SocketClose, PcClose]\<rparr>]\<rparr>)"
    using assms(2,6) g3 by (simp add: socketMessage_v1_def Let_def at_client_def c_effect_def)
  have b1: "\<forall>r. snd (authenticateRequest s r) = s\<lparr>id' := id_field r\<rparr>"
    using assms(1) by (simp add: authenticateRequest_def)
  have b2: "\<forall>r. snd (getAuthentication (w_clients w ! i) r) =
      (w_clients w ! i)\<lparr>c_id := id_field r,
         c_isAdmin := (c_isAdmin (w_clients w ! i) \<or> id_field r = JStr ''admin'')\<rparr>"
    using assms(3) by (simp add: getAuthentication_def strict_eq_str_def)
  have b3: "\<forall>r. snd (getAuthentication_v1 (w_clients w ! i) r) =
      (w_clients w ! i)\<lparr>c_id := v1_id r,
         c_isAdmin := (c_isAdmin (w_clients w ! i) \<or> v1_id r = JStr ''admin'')\<rparr>"
    using assms(3) by (simp add: getAuthentication_v1_def strict_eq_str_def)
  from b1 b2 b3 h1 h2 h3 show ?thesis by blast
qed

theorem C10_binding_precedes_token_check_witness:
  "InboundClient_onClientMessage new_session
     (Parsed (JObj [(''action'', JStr ''offer''), (''command'', JStr ''offer''),
                    (''id'', JStr ''admin''), (''token'', JStr ''wrong'')])) =
     (None, close (new_session\<lparr>id' := JStr ''admin''\<rparr>)) \<and>
   socketMessage fresh_world 0
     (Parsed (JObj [(''action'', JStr ''offer''), (''command'', JStr ''offer''),
                    (''id'', JStr ''admin''), (''token'', JStr ''wrong'')])) =
     (None, fresh_world\<lparr>w_clients :=
        [new_client\<lparr>c_id := JStr ''admin'', c_isAdmin := True,
                     c_effects := [SocketClose, PcClose]\<rparr>]\<rparr>) \<and>
   socketMessage_v1 fresh_world 0
     (Parsed (JObj [(''action'', JStr ''offer''), (''command'', JStr ''offer''),
                    (''id'', JStr ''admin''), (''token'', JStr ''wrong'')])) =
     (None, fresh_world\<lparr>w_clients :=
        [new_client\<lparr>c_id := JStr ''admin'', c_isAdmin := True,
                     c_effects := [Send AUTH_FAILED, SocketClose, PcClose]\<rparr>]\<rparr>)"
proof -
  let ?msg = "Parsed (JObj [(''action'', JStr ''offer''), (''command'', JStr ''offer''),
                            (''id'', JStr ''admin''), (''token'', JStr ''wrong'')])"
  let ?req = "\<lparr>parseError = False, action = JStr ''offer'', data = JNull,
                id_field = JStr ''admin'', token = JStr ''wrong''\<rparr>"
  have rq: "Request ?msg = \<lparr>v1_parseError = False, v1_command = JStr ''offer'', v1_data = JUndefined,
                v1_id = JStr ''admin'', v1_token = JStr ''wrong''\<rparr>"
    by (simp add: Request_def)
  have h1: "nullish (id' new_session)" by (simp add: new_session_def)
  have h2: "0 < length (w_clients fresh_world)" by (simp add: fresh_world_def)
  have h3: "nullish (c_id (w_clients fresh_world ! 0))" by (simp add: fresh_world_def new_client_def)
  have h4: "SockRequest ?msg = Inr ?req" by (simp add: SockRequest_def coalesce_def)
  have h5: "\<not> loose_eq (token ?req) (JStr ''testauth'')" by simp
  have h6: "\<not> v1_parseError (Request ?msg)" by (simp add: rq)
  have h7: "\<not> loose_eq (v1_token (Request ?msg)) (JStr ''testauth'')" by (simp add: rq)
  from C10_binding_precedes_token_check [OF h1 h2 h3 h4 h5 h6 h7]
  show ?thesis
    by (simp add: rq fresh_world_def new_client_def)
qed

section \<open>Routing on the management interface\<close>

text \<open>
  The management interface of the role-split variant routes as the specification says:
  with a source stream, its loop from position \<open>i\<close> is the specification's routing of
  the destinations from that position on, and it does not throw.
\<close>

lemma addRoute_loop_is_spec_route:
  "addRoute_loop g (Some st) ds i m = (None, spec_route g st (drop i ds) m)"
proof (induction "length ds - i" arbitrary: i m)
  case 0
  then show ?case by (simp add: addRoute_loop.simps [of _ _ _ i])
next
  case (Suc n)
  then have less: "i < length ds" and n: "n = length ds - Suc i" by auto
  from less have dr: "drop i ds = ds ! i # drop (Suc i) ds"
    by (simp add: Cons_nth_drop_Suc)
  show ?case
    using Suc.hyps(1) [OF n] less
    by (auto simp: addRoute_loop.simps [of _ _ _ i] dr addMediaStream_def spec_serve_def
        split: option.splits prod.splits)
qed

lemma management_route_example:
  "onManagementMessage node_globals management_example
     (Parsed (JObj [(''action'', JStr ''addRoute''),
                    (''data'', JArr [JStr ''alice'', JStr ''bob'', JStr ''ghost'', JStr ''carol''])])) =
   (None, management_example\<lparr>
      m_clients :=
        [(Inbound, session_of ''alice'' [Some camera]),
         (Inbound, (session_of ''bob'' [])\<lparr>effects :=
            [AddTrack ''video'' camera, AddTrack ''audio'' camera, Send (RESP_RENEG node_globals)]\<rparr>),
         (Inbound, (session_of ''carol'' [])\<lparr>effects :=
            [AddTrack ''video'' camera, AddTrack ''audio'' camera, Send (RESP_RENEG node_globals)]\<rparr>)],
      m_log := [RoutingDestinationMissing (JStr ''ghost'')]\<rparr>)"
  by (simp add: onManagementMessage_def SockRequest_def coalesce_def strict_eq_str_def
      js_index_def m_getClientById_def strict_eq_def management_example_def session_of_def
      first_stream_def addRoute_loop_is_spec_route spec_serve_def addMediaStream_def
      renegotiateWebRTC_def do_effect_def camera_def)

end
